theory Spec2Isabelle
  imports Complex_Main
begin

section \<open>Strings and numbers of the host language\<close>

text \<open>
  Strings are character lists. The source only ever searches for, upper-cases and lower-cases
  ASCII letters; characters outside \<open>A-Z\<close> / \<open>a-z\<close> are left as they are by the two case
  conversions below. Numbers (\<open>number\<close> in the source: HTTP statuses, millisecond durations,
  timestamps, counters) are integers, with which the host computes exactly up to \<open>2^53\<close>.
\<close>

definition toLowerCase_char :: "char \<Rightarrow> char" where
  "toLowerCase_char c =
     (case map_of (zip ''ABCDEFGHIJKLMNOPQRSTUVWXYZ'' ''abcdefghijklmnopqrstuvwxyz'') c of
        Some d \<Rightarrow> d | None \<Rightarrow> c)"

definition toUpperCase_char :: "char \<Rightarrow> char" where
  "toUpperCase_char c =
     (case map_of (zip ''abcdefghijklmnopqrstuvwxyz'' ''ABCDEFGHIJKLMNOPQRSTUVWXYZ'') c of
        Some d \<Rightarrow> d | None \<Rightarrow> c)"

definition toLowerCase :: "string \<Rightarrow> string" where
  "toLowerCase s = map toLowerCase_char s"

definition toUpperCase :: "string \<Rightarrow> string" where
  "toUpperCase s = map toUpperCase_char s"

text \<open>\<open>s.includes(p)\<close>: \<open>p\<close> occurs in \<open>s\<close> as a contiguous substring.\<close>

fun startsWith :: "string \<Rightarrow> string \<Rightarrow> bool" where
  "startsWith s [] = True"
| "startsWith [] (p # ps) = False"
| "startsWith (c # cs) (p # ps) = (c = p \<and> startsWith cs ps)"

fun includes_str :: "string \<Rightarrow> string \<Rightarrow> bool" where
  "includes_str [] p = (p = [])"
| "includes_str (c # cs) p = (startsWith (c # cs) p \<or> includes_str cs p)"

text \<open>Decimal rendering of an integer, as a template literal \<open>`${n}`\<close> prints it.\<close>

definition digit_char :: "int \<Rightarrow> char" where
  "digit_char d = ''0123456789'' ! nat (d mod 10)"

function digits_of :: "int \<Rightarrow> string" where
  "digits_of n = (if n < 10 then [digit_char n] else digits_of (n div 10) @ [digit_char (n mod 10)])"
  by pat_completeness auto
termination
  by (relation "measure nat") auto

definition number_toString :: "int \<Rightarrow> string" where
  "number_toString i = (if i < 0 then CHR ''-'' # digits_of (- i) else digits_of i)"

text \<open>Digits left-padded with zeros to a fixed width (\<open>padStart(w, "0")\<close>).\<close>

definition pad_digits :: "nat \<Rightarrow> int \<Rightarrow> string" where
  "pad_digits w n = replicate (w - length (digits_of n)) CHR ''0'' @ digits_of n"

section \<open>HTTP statuses and error codes\<close>

definition HttpStatus_BAD_REQUEST :: int where "HttpStatus_BAD_REQUEST = 400"
definition HttpStatus_UNAUTHORIZED :: int where "HttpStatus_UNAUTHORIZED = 401"
definition HttpStatus_FORBIDDEN :: int where "HttpStatus_FORBIDDEN = 403"
definition HttpStatus_NOT_FOUND :: int where "HttpStatus_NOT_FOUND = 404"
definition HttpStatus_METHOD_NOT_ALLOWED :: int where "HttpStatus_METHOD_NOT_ALLOWED = 405"
definition HttpStatus_CONFLICT :: int where "HttpStatus_CONFLICT = 409"
definition HttpStatus_TOO_MANY_REQUESTS :: int where "HttpStatus_TOO_MANY_REQUESTS = 429"
definition HttpStatus_UNPROCESSABLE_CONTENT :: int where "HttpStatus_UNPROCESSABLE_CONTENT = 422"
definition HttpStatus_INTERNAL_SERVER_ERROR :: int where "HttpStatus_INTERNAL_SERVER_ERROR = 500"
definition HttpStatus_BAD_GATEWAY :: int where "HttpStatus_BAD_GATEWAY = 502"
definition HttpStatus_SERVICE_UNAVAILABLE :: int where "HttpStatus_SERVICE_UNAVAILABLE = 503"
definition HttpStatus_GATEWAY_TIMEOUT :: int where "HttpStatus_GATEWAY_TIMEOUT = 504"

definition ErrorCodes_VALIDATION_ERROR :: string where "ErrorCodes_VALIDATION_ERROR = ''VALIDATION_ERROR''"
definition ErrorCodes_NOT_FOUND :: string where "ErrorCodes_NOT_FOUND = ''NOT_FOUND''"
definition ErrorCodes_CONFLICT :: string where "ErrorCodes_CONFLICT = ''CONFLICT''"
definition ErrorCodes_FORBIDDEN :: string where "ErrorCodes_FORBIDDEN = ''FORBIDDEN''"
definition ErrorCodes_UNAUTHORIZED :: string where "ErrorCodes_UNAUTHORIZED = ''UNAUTHORIZED''"
definition ErrorCodes_METHOD_NOT_ALLOWED :: string where "ErrorCodes_METHOD_NOT_ALLOWED = ''METHOD_NOT_ALLOWED''"
definition ErrorCodes_INVALID_PARAM :: string where "ErrorCodes_INVALID_PARAM = ''INVALID_PARAM''"
definition ErrorCodes_FETCH_ERROR :: string where "ErrorCodes_FETCH_ERROR = ''FETCH_ERROR''"
definition ErrorCodes_NETWORK_ERROR :: string where "ErrorCodes_NETWORK_ERROR = ''NETWORK_ERROR''"
definition ErrorCodes_CIRCUIT_OPEN_ERROR :: string where "ErrorCodes_CIRCUIT_OPEN_ERROR = ''CIRCUIT_OPEN_ERROR''"
definition ErrorCodes_TIMEOUT_ERROR :: string where "ErrorCodes_TIMEOUT_ERROR = ''TIMEOUT_ERROR''"
definition ErrorCodes_API_RESPONSE_ERROR :: string where "ErrorCodes_API_RESPONSE_ERROR = ''API_RESPONSE_ERROR''"
definition ErrorCodes_GRAPHQL_ERROR :: string where "ErrorCodes_GRAPHQL_ERROR = ''GRAPHQL_ERROR''"
definition ErrorCodes_UNEXPECTED_ERROR :: string where "ErrorCodes_UNEXPECTED_ERROR = ''UNEXPECTED_ERROR''"

text \<open>
  \<open>DOMAIN_STATUS_MAP\<close>: the registry from domain codes to statuses; a code that is not
  registered has no entry. (The lookup is among the registry's own six keys.)
\<close>

definition DOMAIN_STATUS_MAP :: "string \<rightharpoonup> int" where
  "DOMAIN_STATUS_MAP = map_of
     [(ErrorCodes_NOT_FOUND, HttpStatus_NOT_FOUND),
      (ErrorCodes_CONFLICT, HttpStatus_CONFLICT),
      (ErrorCodes_FORBIDDEN, HttpStatus_FORBIDDEN),
      (ErrorCodes_UNAUTHORIZED, HttpStatus_UNAUTHORIZED),
      (ErrorCodes_METHOD_NOT_ALLOWED, HttpStatus_METHOD_NOT_ALLOWED),
      (ErrorCodes_INVALID_PARAM, HttpStatus_UNPROCESSABLE_CONTENT)]"

section \<open>Dates\<close>

text \<open>
  \<open>new Date(t).toISOString()\<close> of the host language, for a time value \<open>t\<close> in milliseconds
  since the epoch. A time value beyond 8.64e15 ms either side of the epoch is not a date, and
  \<open>toISOString\<close> then throws a \<open>RangeError\<close>; this is the value \<open>None\<close>. Otherwise the result
  is \<open>YYYY-MM-DDTHH:mm:ss.sssZ\<close>, with a signed six-digit year outside 0..9999. The civil
  date is computed from the day number by the usual era / day-of-era arithmetic of the
  proleptic Gregorian calendar.
\<close>

definition Date_valid :: "int \<Rightarrow> bool" where
  "Date_valid t = (- 8640000000000000 \<le> t \<and> t \<le> 8640000000000000)"

definition civil_from_days :: "int \<Rightarrow> int \<times> int \<times> int" where
  "civil_from_days z0 =
     (let z = z0 + 719468;
          era = z div 146097;
          doe = z - era * 146097;
          yoe = (doe - doe div 1460 + doe div 36524 - doe div 146096) div 365;
          y = yoe + era * 400;
          doy = doe - (365 * yoe + yoe div 4 - yoe div 100);
          mp = (5 * doy + 2) div 153;
          d = doy - (153 * mp + 2) div 5 + 1;
          m = (if mp < 10 then mp + 3 else mp - 9)
      in (if m \<le> 2 then y + 1 else y, m, d))"

definition year_toString :: "int \<Rightarrow> string" where
  "year_toString y =
     (if 0 \<le> y \<and> y \<le> 9999 then pad_digits 4 y
      else (if y < 0 then CHR ''-'' else CHR ''+'') # pad_digits 6 \<bar>y\<bar>)"

definition Date_toISOString :: "int \<Rightarrow> string option" where
  "Date_toISOString t =
     (if \<not> Date_valid t then None
      else
        let (y, m, d) = civil_from_days (t div 86400000);
            ms = t mod 86400000
        in Some (year_toString y @ ''-'' @ pad_digits 2 m @ ''-'' @ pad_digits 2 d @ ''T''
                 @ pad_digits 2 (ms div 3600000) @ '':'' @ pad_digits 2 (ms div 60000 mod 60) @ '':''
                 @ pad_digits 2 (ms div 1000 mod 60) @ ''.'' @ pad_digits 3 (ms mod 1000) @ ''Z''))"

section \<open>The error taxonomy\<close>

datatype ErrorLayer = Domain | Infrastructure | Application

datatype Mode = Proxy | Integration

datatype ApiErrorMeta =
    RATE_LIMIT "string option" "int option" "int option"
  | VALIDATION "(string \<times> string) list"

record ApiErrorResponse =
  timestamp :: string
  code :: string
  message :: string
  status :: int
  requestId :: "string option"
  retryable :: "bool option"
  layer :: "string option"
  meta :: "ApiErrorMeta option"

record FetchFields =
  url :: string
  httpMethod :: string
  status :: int
  statusText :: string
  body :: "string option"
  idempotencyKey :: "string option"

text \<open>
  The transport-level DTO \<open>HttpError\<close>: what \<open>mapToHttpError\<close> builds. An absent \<open>meta\<close>
  (\<open>undefined\<close>) is \<open>None\<close>.
\<close>

record HttpError =
  code :: string
  status :: int
  message :: string
  expose :: bool
  layer :: ErrorLayer
  retryable :: bool
  meta :: "ApiErrorMeta option"

text \<open>
  The concrete classes below \<open>BaseError\<close>, each with the fields its class adds. The three
  abstract layer classes \<open>DomainError\<close>, \<open>InfrastructureError\<close> and \<open>ApplicationError\<close> are
  exported for extension, so each has a constructor for a further subclass, which chooses its
  class name and its code (and, for an infrastructure error, its \<open>retryable\<close> flag).
  \<open>BaseError\<close> is exported too: a class that extends it directly chooses all four abstract
  fields.
\<close>

datatype ErrorClass =
    ValidationError "(string \<times> string) list"  \<comment> \<open>\<open>fields\<close>\<close>
  | NotFoundError
  | ForbiddenError
  | UnauthorizedError
  | ConflictError
  | MethodNotAllowedError
  | InvalidParamError
  | OtherDomainError string string  \<comment> \<open>class name, \<open>code\<close>\<close>
  | FetchError FetchFields
  | NetworkError
  | ApiResponseError ApiErrorResponse Mode  \<comment> \<open>\<open>remoteError\<close>, \<open>mode\<close>\<close>
  | GraphQLUpstreamError
  | CircuitOpenError string int  \<comment> \<open>\<open>circuitName\<close>, \<open>resetAt\<close>\<close>
  | TimeoutError int  \<comment> \<open>\<open>timeoutMs\<close>\<close>
  | OtherInfrastructureError string string bool  \<comment> \<open>class name, \<open>code\<close>, \<open>retryable\<close>\<close>
  | UnexpectedError string  \<comment> \<open>\<open>internalMessage\<close>\<close>
  | OtherApplicationError string string  \<comment> \<open>class name, \<open>code\<close>\<close>
  | OtherBaseError string string ErrorLayer bool bool
      \<comment> \<open>class name, \<open>code\<close>, \<open>layer\<close>, \<open>retryable\<close>, \<open>operational\<close>\<close>

text \<open>
  A value of type \<open>unknown\<close>, as a \<open>catch\<close> clause receives it: a value that is no instance
  of \<open>Error\<close> (a primitive, or an object with whatever properties it has), an \<open>Error\<close> outside
  the taxonomy (with its \<open>name\<close>, its \<open>message\<close> and its \<open>code\<close> property when it has one of
  type string), or an instance of \<open>BaseError\<close>. A \<open>BaseError\<close> carries its class, its message
  and its optional cause.
\<close>

datatype PlainValue =
    JsNull
  | JsUndefined
  | JsString string
  | JsNumber int
  | JsApiErrorResponse ApiErrorResponse
  | JsObject "(string \<times> string) list"  \<comment> \<open>the properties that hold a string\<close>

datatype unknown =
    Plain PlainValue
  | NativeError string string "string option"  \<comment> \<open>\<open>name\<close>, \<open>message\<close>, \<open>code\<close>\<close>
  | Typed BaseError
and BaseError =
    BaseError (cls: ErrorClass) (message: string) (cause: "unknown option")

fun code :: "BaseError \<Rightarrow> string" where
  "code (BaseError c m k) =
     (case c of
        ValidationError fs \<Rightarrow> ErrorCodes_VALIDATION_ERROR
      | NotFoundError \<Rightarrow> ErrorCodes_NOT_FOUND
      | ForbiddenError \<Rightarrow> ErrorCodes_FORBIDDEN
      | UnauthorizedError \<Rightarrow> ErrorCodes_UNAUTHORIZED
      | ConflictError \<Rightarrow> ErrorCodes_CONFLICT
      | MethodNotAllowedError \<Rightarrow> ErrorCodes_METHOD_NOT_ALLOWED
      | InvalidParamError \<Rightarrow> ErrorCodes_INVALID_PARAM
      | OtherDomainError n cd \<Rightarrow> cd
      | FetchError f \<Rightarrow> ErrorCodes_FETCH_ERROR
      | NetworkError \<Rightarrow> ErrorCodes_NETWORK_ERROR
      | ApiResponseError r md \<Rightarrow> ErrorCodes_API_RESPONSE_ERROR
      | GraphQLUpstreamError \<Rightarrow> ErrorCodes_GRAPHQL_ERROR
      | CircuitOpenError n t \<Rightarrow> ErrorCodes_CIRCUIT_OPEN_ERROR
      | TimeoutError t \<Rightarrow> ErrorCodes_TIMEOUT_ERROR
      | OtherInfrastructureError n cd r \<Rightarrow> cd
      | UnexpectedError im \<Rightarrow> ErrorCodes_UNEXPECTED_ERROR
      | OtherApplicationError n cd \<Rightarrow> cd
      | OtherBaseError n cd l r ope \<Rightarrow> cd)"

fun layer :: "BaseError \<Rightarrow> ErrorLayer" where
  "layer (BaseError c m k) =
     (case c of
        ValidationError fs \<Rightarrow> Domain
      | NotFoundError \<Rightarrow> Domain
      | ForbiddenError \<Rightarrow> Domain
      | UnauthorizedError \<Rightarrow> Domain
      | ConflictError \<Rightarrow> Domain
      | MethodNotAllowedError \<Rightarrow> Domain
      | InvalidParamError \<Rightarrow> Domain
      | OtherDomainError n cd \<Rightarrow> Domain
      | FetchError f \<Rightarrow> Infrastructure
      | NetworkError \<Rightarrow> Infrastructure
      | ApiResponseError r md \<Rightarrow> Infrastructure
      | GraphQLUpstreamError \<Rightarrow> Infrastructure
      | CircuitOpenError n t \<Rightarrow> Infrastructure
      | TimeoutError t \<Rightarrow> Infrastructure
      | OtherInfrastructureError n cd r \<Rightarrow> Infrastructure
      | UnexpectedError im \<Rightarrow> Application
      | OtherApplicationError n cd \<Rightarrow> Application
      | OtherBaseError n cd l r ope \<Rightarrow> l)"

text \<open>
  \<open>retryable\<close>: \<open>false\<close> in the domain and application layers; in the infrastructure layer
  each class fixes it (\<open>FetchError\<close> and \<open>ApiResponseError\<close> compute it in their constructors
  from the fields they keep).
\<close>

fun retryable :: "BaseError \<Rightarrow> bool" where
  "retryable (BaseError c m k) =
     (case c of
        FetchError f \<Rightarrow>
          FetchFields.status f \<ge> HttpStatus_INTERNAL_SERVER_ERROR
          \<or> FetchFields.status f = HttpStatus_TOO_MANY_REQUESTS
      | NetworkError \<Rightarrow> True
      | ApiResponseError r md \<Rightarrow>
          ApiErrorResponse.retryable r = Some True
          \<or> ApiErrorResponse.status r \<ge> 500
          \<or> ApiErrorResponse.status r = 429
      | GraphQLUpstreamError \<Rightarrow> True
      | CircuitOpenError n t \<Rightarrow> True
      | TimeoutError t \<Rightarrow> True
      | OtherInfrastructureError n cd r \<Rightarrow> r
      | OtherBaseError n cd l r ope \<Rightarrow> r
      | _ \<Rightarrow> False)"

text \<open>\<open>operational\<close>: \<open>true\<close> in the domain and infrastructure layers, \<open>false\<close> in the application layer.\<close>

fun operational :: "BaseError \<Rightarrow> bool" where
  "operational (BaseError c m k) =
     (case c of
        UnexpectedError im \<Rightarrow> False
      | OtherApplicationError n cd \<Rightarrow> False
      | OtherBaseError n cd l r ope \<Rightarrow> ope
      | _ \<Rightarrow> True)"

text \<open>
  \<open>this.name = this.constructor.name\<close>: the \<open>name\<close> of an instance is the name of its class.
\<close>

fun className :: "BaseError \<Rightarrow> string" where
  "className (BaseError c m k) =
     (case c of
        ValidationError fs \<Rightarrow> ''ValidationError''
      | NotFoundError \<Rightarrow> ''NotFoundError''
      | ForbiddenError \<Rightarrow> ''ForbiddenError''
      | UnauthorizedError \<Rightarrow> ''UnauthorizedError''
      | ConflictError \<Rightarrow> ''ConflictError''
      | MethodNotAllowedError \<Rightarrow> ''MethodNotAllowedError''
      | InvalidParamError \<Rightarrow> ''InvalidParamError''
      | OtherDomainError n cd \<Rightarrow> n
      | FetchError f \<Rightarrow> ''FetchError''
      | NetworkError \<Rightarrow> ''NetworkError''
      | ApiResponseError r md \<Rightarrow> ''ApiResponseError''
      | GraphQLUpstreamError \<Rightarrow> ''GraphQLUpstreamError''
      | CircuitOpenError n t \<Rightarrow> ''CircuitOpenError''
      | TimeoutError t \<Rightarrow> ''TimeoutError''
      | OtherInfrastructureError n cd r \<Rightarrow> n
      | UnexpectedError im \<Rightarrow> ''UnexpectedError''
      | OtherApplicationError n cd \<Rightarrow> n
      | OtherBaseError n cd l r ope \<Rightarrow> n)"

text \<open>The \<open>instanceof\<close> tests the source makes.\<close>

fun isValidationError :: "BaseError \<Rightarrow> bool" where
  "isValidationError (BaseError (ValidationError fs) m k) = True"
| "isValidationError e = False"

fun isApiResponseError :: "BaseError \<Rightarrow> bool" where
  "isApiResponseError (BaseError (ApiResponseError r md) m k) = True"
| "isApiResponseError e = False"

fun isNetworkError :: "BaseError \<Rightarrow> bool" where
  "isNetworkError (BaseError NetworkError m k) = True"
| "isNetworkError e = False"

fun isCircuitOpenError :: "BaseError \<Rightarrow> bool" where
  "isCircuitOpenError (BaseError (CircuitOpenError n t) m k) = True"
| "isCircuitOpenError e = False"

fun isTimeoutError :: "BaseError \<Rightarrow> bool" where
  "isTimeoutError (BaseError (TimeoutError t) m k) = True"
| "isTimeoutError e = False"

fun isFetchError :: "BaseError \<Rightarrow> bool" where
  "isFetchError (BaseError (FetchError f) m k) = True"
| "isFetchError e = False"

text \<open>
  \<open>err instanceof Error\<close>; \<open>err.name\<close>, which an object that is no \<open>Error\<close> may have as well;
  and the \<open>message\<close> of an \<open>Error\<close>.
\<close>

fun isError :: "unknown \<Rightarrow> bool" where
  "isError (Plain v) = False"
| "isError (NativeError n m c) = True"
| "isError (Typed e) = True"

fun errorName :: "unknown \<Rightarrow> string option" where
  "errorName (Plain (JsObject props)) = map_of props ''name''"
| "errorName (Plain v) = None"
| "errorName (NativeError n m c) = Some n"
| "errorName (Typed e) = Some (className e)"

fun errorMessage :: "unknown \<Rightarrow> string option" where
  "errorMessage (Plain v) = None"
| "errorMessage (NativeError n m c) = Some m"
| "errorMessage (Typed e) = Some (message e)"

subsection \<open>Constructors\<close>

definition newNetworkError :: "string \<Rightarrow> unknown option \<Rightarrow> BaseError" where
  "newNetworkError m k = BaseError NetworkError m k"

definition newTimeoutError :: "int \<Rightarrow> BaseError" where
  "newTimeoutError timeoutMs =
     BaseError (TimeoutError timeoutMs)
       (''Request timed out after '' @ number_toString timeoutMs @ ''ms'') None"

text \<open>
  \<open>new CircuitOpenError(circuitName, resetAt)\<close> formats \<open>resetAt\<close> as an ISO date for its
  message before anything else, so the construction itself throws the \<open>RangeError\<close> of
  \<open>toISOString\<close> when \<open>resetAt\<close> is not a valid time value.
\<close>

definition RangeError_invalid_time :: unknown where
  "RangeError_invalid_time = NativeError ''RangeError'' ''Invalid time value'' None"

definition newCircuitOpenError :: "string \<Rightarrow> int \<Rightarrow> unknown + BaseError" where
  "newCircuitOpenError circuitName resetAt =
     (case Date_toISOString resetAt of
        None \<Rightarrow> Inl RangeError_invalid_time
      | Some isoString \<Rightarrow>
          Inr (BaseError (CircuitOpenError circuitName resetAt)
                (''Circuit breaker '' @ [CHR 0x22] @ circuitName @ [CHR 0x22]
                 @ '' is open. Retry after '' @ isoString) None))"

definition newUnexpectedError :: "unknown option \<Rightarrow> BaseError" where
  "newUnexpectedError k =
     (let internalMessage =
            (case k of Some c \<Rightarrow> (case errorMessage c of Some m \<Rightarrow> m | None \<Rightarrow> ''No original message'')
                     | None \<Rightarrow> ''No original message'');
          displayMessage =
            (case k of Some c \<Rightarrow> (if isError c then ''Unexpected: '' @ internalMessage
                                   else ''An unexpected error occurred'')
                     | None \<Rightarrow> ''An unexpected error occurred'')
      in BaseError (UnexpectedError internalMessage) displayMessage k)"

definition newApiResponseError :: "ApiErrorResponse \<Rightarrow> Mode \<Rightarrow> BaseError" where
  "newApiResponseError remoteError md =
     BaseError (ApiResponseError remoteError md)
       (''Upstream API Error: '' @ number_toString (ApiErrorResponse.status remoteError) @ '' ''
        @ ApiErrorResponse.code remoteError @ '' - '' @ ApiErrorResponse.message remoteError)
       (Some (Plain (JsApiErrorResponse remoteError)))"

section \<open>Classifier\<close>

definition classifyError :: "unknown \<Rightarrow> BaseError" where
  "classifyError error =
     (case error of
        Typed e \<Rightarrow> e
      | NativeError nm msg cd \<Rightarrow>
          (let lower = toLowerCase msg;
               isNetworkError =
                 (nm = ''TypeError'' \<and>
                  (includes_str lower ''fetch'' \<or> includes_str lower ''network''
                   \<or> includes_str lower ''failed to fetch''));
               isSystemError =
                 (nm = ''AbortError'' \<or>
                  (case cd of
                     Some c \<Rightarrow> c \<in> set [''ENOTFOUND'', ''ECONNREFUSED'', ''ETIMEDOUT'', ''ECONNRESET'']
                   | None \<Rightarrow> False))
           in if isNetworkError \<or> isSystemError
              then newNetworkError (if msg = [] then ''Network failure or timeout'' else msg) (Some error)
              else newUnexpectedError (Some error))
      | Plain v \<Rightarrow> newUnexpectedError (Some error))"

section \<open>Policy resolver\<close>

datatype LogLevel = LogError | LogWarn | LogInfo

record ErrorPolicy =
  shouldReport :: bool
  shouldAlert :: bool
  shouldExpose :: bool
  logLevel :: LogLevel

text \<open>
  The narrowing of \<open>error instanceof ApiResponseError\<close> (the upstream response and the mode
  become readable) and of \<open>error instanceof FetchError\<close>.
\<close>

fun asApiResponseError :: "BaseError \<Rightarrow> (ApiErrorResponse \<times> Mode) option" where
  "asApiResponseError (BaseError (ApiResponseError r md) m k) = Some (r, md)"
| "asApiResponseError e = None"

fun asFetchError :: "BaseError \<Rightarrow> FetchFields option" where
  "asFetchError (BaseError (FetchError f) m k) = Some f"
| "asFetchError e = None"

fun asValidationError :: "BaseError \<Rightarrow> (string \<times> string) list option" where
  "asValidationError (BaseError (ValidationError fs) m k) = Some fs"
| "asValidationError e = None"

definition getErrorPolicy :: "BaseError \<Rightarrow> ErrorPolicy" where
  "getErrorPolicy error =
     (if isValidationError error then
        \<lparr>shouldReport = False, shouldAlert = False, shouldExpose = True, logLevel = LogInfo\<rparr>
      else
        case asApiResponseError error of
          Some (remoteError, md) \<Rightarrow>
            (if md = Proxy then
               \<lparr>shouldReport = False, shouldAlert = False, shouldExpose = True,
                logLevel = (if ApiErrorResponse.status remoteError \<ge> 500 then LogWarn else LogInfo)\<rparr>
             else
               \<lparr>shouldReport = True, shouldAlert = (ApiErrorResponse.status remoteError \<ge> 500),
                shouldExpose = False, logLevel = LogError\<rparr>)
        | None \<Rightarrow>
            (if layer error = Domain then
               \<lparr>shouldReport = False, shouldAlert = False, shouldExpose = True, logLevel = LogWarn\<rparr>
             else if layer error = Infrastructure then
               \<lparr>shouldReport = True, shouldAlert = (\<not> retryable error), shouldExpose = False,
                logLevel = LogError\<rparr>
             else
               \<lparr>shouldReport = True, shouldAlert = True, shouldExpose = False,
                logLevel = LogError\<rparr>))"

section \<open>Transport mapper\<close>

definition determineStatus :: "BaseError \<Rightarrow> int" where
  "determineStatus error =
     (if isValidationError error then HttpStatus_UNPROCESSABLE_CONTENT
      else if layer error = Domain then
        (case DOMAIN_STATUS_MAP (code error) of
           Some mapped \<Rightarrow> mapped
         | None \<Rightarrow> HttpStatus_BAD_REQUEST)
      else
        case asApiResponseError error of
          Some (remoteError, md) \<Rightarrow>
            (if md = Proxy then ApiErrorResponse.status remoteError
             else if ApiErrorResponse.status remoteError \<ge> 500 then HttpStatus_SERVICE_UNAVAILABLE
             else HttpStatus_BAD_GATEWAY)
        | None \<Rightarrow>
            (if isNetworkError error then HttpStatus_BAD_GATEWAY
             else if isCircuitOpenError error then HttpStatus_SERVICE_UNAVAILABLE
             else if isTimeoutError error then
               (if retryable error then HttpStatus_SERVICE_UNAVAILABLE
                else HttpStatus_GATEWAY_TIMEOUT)
             else
               case asFetchError error of
                 Some f \<Rightarrow>
                   (if FetchFields.status f = HttpStatus_TOO_MANY_REQUESTS
                    then HttpStatus_TOO_MANY_REQUESTS
                    else HttpStatus_BAD_GATEWAY)
               | None \<Rightarrow> HttpStatus_INTERNAL_SERVER_ERROR))"

text \<open>\<open>code.toUpperCase().replace(/[^A-Z0-9_]/g, "_")\<close>.\<close>

definition normalizeCode :: "string \<Rightarrow> string" where
  "normalizeCode s =
     map (\<lambda>c. if c \<in> set ''ABCDEFGHIJKLMNOPQRSTUVWXYZ0123456789_'' then c else CHR ''_'')
       (toUpperCase s)"

definition mapToHttpError :: "BaseError \<Rightarrow> ErrorPolicy \<Rightarrow> HttpError" where
  "mapToHttpError error policy =
     (let status = determineStatus error;
          safeMessage = (if shouldExpose policy then message error else ''Internal server error'')
      in \<lparr>HttpError.code = normalizeCode (code error),
          HttpError.status = status,
          HttpError.message = safeMessage,
          HttpError.expose = shouldExpose policy,
          HttpError.layer = layer error,
          HttpError.retryable = retryable error,
          HttpError.meta =
            (case (if shouldExpose policy then asValidationError error else None) of
               Some fs \<Rightarrow> Some (VALIDATION fs)
             | None \<Rightarrow> None)\<rparr>)"

section \<open>Timeout wrapper\<close>

text \<open>
  An \<open>AbortSignal\<close> as the wrapper builds it: a signal the caller supplied (its label, and
  whether it is already aborted when the call starts), the signal of the wrapper's own
  controller, which the deadline timer aborts after the given number of milliseconds, or
  the signal \<open>anySignal\<close> returns (whether it is aborted on return, and the signals it
  listens to).
\<close>

datatype AbortSignal =
    CallerSignal string bool  \<comment> \<open>label, \<open>aborted\<close>\<close>
  | DeadlineSignal int  \<comment> \<open>\<open>timeoutMs\<close>\<close>
  | AnySignal bool "AbortSignal list"  \<comment> \<open>\<open>aborted\<close>, the signals listened to\<close>

fun aborted :: "AbortSignal \<Rightarrow> bool" where
  "aborted (CallerSignal l a) = a"
| "aborted (DeadlineSignal ms) = False"
| "aborted (AnySignal a ss) = a"

text \<open>
  \<open>anySignal\<close>: the loop returns an aborted signal at the first signal that is aborted
  already, and otherwise subscribes to the signal and goes on.
\<close>

fun anySignal_loop :: "AbortSignal list \<Rightarrow> AbortSignal list \<Rightarrow> AbortSignal" where
  "anySignal_loop listened [] = AnySignal False listened"
| "anySignal_loop listened (s # ss) =
     (if aborted s then AnySignal True listened else anySignal_loop (listened @ [s]) ss)"

definition anySignal :: "AbortSignal list \<Rightarrow> AbortSignal" where
  "anySignal signals = anySignal_loop [] signals"

text \<open>
  \<open>WithInitParams\<close>: the parameters of a fetch-like function are any record that has an
  optional \<open>initParams\<close>, which in turn has an optional \<open>signal\<close> beside its other fields.
\<close>

record InitParams =
  signal :: "AbortSignal option"
  otherInit :: "(string \<times> string) list"

record WithInitParams =
  initParams :: "InitParams option"

text \<open>
  The wrapped function returns a promise, which settles with a rejection (\<open>Inl\<close>) or a
  result (\<open>Inr\<close>), depending on the parameters it is given, the signal among them. \<open>withTimeout\<close> passes the parameters
  on with the merged signal and rewrites the settlement in its \<open>catch\<close> handler; the
  \<open>finally\<close> handler clears the timer and changes no settlement.
\<close>

definition withSignal :: "int \<Rightarrow> 'a WithInitParams_scheme \<Rightarrow> 'a WithInitParams_scheme" where
  "withSignal timeoutMs params =
     (let controllerSignal = DeadlineSignal timeoutMs;
          existingSignal = (case initParams params of Some ip \<Rightarrow> signal ip | None \<Rightarrow> None);
          merged = (case existingSignal of
                      Some ex \<Rightarrow> anySignal [ex, controllerSignal]
                    | None \<Rightarrow> controllerSignal)
      in params\<lparr>initParams :=
           Some ((case initParams params of
                    Some ip \<Rightarrow> ip
                  | None \<Rightarrow> \<lparr>signal = None, otherInit = []\<rparr>)\<lparr>signal := Some merged\<rparr>)\<rparr>)"

definition withTimeout ::
  "int \<Rightarrow> ('a WithInitParams_scheme \<Rightarrow> unknown + 'r) \<Rightarrow> 'a WithInitParams_scheme \<Rightarrow> unknown + 'r" where
  "withTimeout timeoutMs fn params =
     (case fn (withSignal timeoutMs params) of
        Inr result \<Rightarrow> Inr result
      | Inl err \<Rightarrow>
          (if isError err \<and> errorName err = Some ''AbortError''
           then Inl (Typed (newTimeoutError timeoutMs))
           else Inl err))"

text \<open>The \<open>timeoutMs\<close> field of a \<open>TimeoutError\<close>.\<close>

fun timeoutMsOf :: "unknown \<Rightarrow> int option" where
  "timeoutMsOf (Typed (BaseError (TimeoutError t) m k)) = Some t"
| "timeoutMsOf e = None"

section \<open>Execution of a wrapped function\<close>

text \<open>
  The retry wrapper and the circuit breaker call a function that acts on the world outside
  them. One invocation takes the world as it is and settles with a rejection (\<open>Inl\<close>) or a
  result (\<open>Inr\<close>), leaving the world changed; \<open>calls\<close> counts the invocations a wrapper has
  made. The arguments of the wrapped function are passed on unchanged and are part of the
  function here.
\<close>

record 'w Exec =
  world :: 'w
  calls :: nat

section \<open>Retry wrapper\<close>

datatype BackoffStrategy = Fixed | Exponential | Linear

record RetryOptions =
  maxAttempts :: "int option"
  delayMs :: "int option"
  backoff :: "BackoffStrategy option"
  maxJitterMs :: "int option"
  maxDelayMs :: "int option"
  shouldRetry :: "(unknown \<Rightarrow> int \<Rightarrow> bool) option"

text \<open>
  What the two optional hooks are called with: \<open>onRetry\<close> with the error, the attempt, the
  next delay and the elapsed time, \<open>onExhausted\<close> with the error, the number of attempts and
  the elapsed time. Hooks are observers: they return normally.
\<close>

datatype RetryEvent =
    OnRetry unknown int int int  \<comment> \<open>\<open>error\<close>, \<open>attempt\<close>, \<open>nextDelayMs\<close>, \<open>totalElapsedMs\<close>\<close>
  | OnExhausted unknown int int  \<comment> \<open>\<open>error\<close>, \<open>totalAttempts\<close>, \<open>totalElapsedMs\<close>\<close>

text \<open>
  The environment of one wrapped call: the value \<open>Math.random()\<close> returns when the delay
  after a given attempt is computed, and by how many milliseconds the timer of the sleep
  after that attempt fires late. The clock is \<open>Date.now()\<close>; an invocation of the wrapped
  function takes the time it reports. \<open>sleep(ms)\<close> is \<open>setTimeout(resolve, ms)\<close>: the timer
  fires no earlier than \<open>ms\<close> milliseconds later when \<open>ms\<close> is a delay a timer can hold (at
  most \<open>2^31 - 1\<close>), and without the delay when \<open>ms\<close> is negative or too large; the lag comes
  on top.
\<close>

record RetryEnv =
  random :: "int \<Rightarrow> real"
  timerLag :: "int \<Rightarrow> nat"

record 'w RetryState = "'w Exec" +
  clock :: int
  retryHooks :: "RetryEvent list"

definition timerDelay :: "int \<Rightarrow> int" where
  "timerDelay ms = (if 0 \<le> ms \<and> ms \<le> 2147483647 then ms else 0)"

definition sleep :: "RetryEnv \<Rightarrow> int \<Rightarrow> int \<Rightarrow> 'w RetryState \<Rightarrow> 'w RetryState" where
  "sleep env attempt ms st = st\<lparr>clock := clock st + timerDelay ms + int (timerLag env attempt)\<rparr>"

text \<open>
  \<open>calculateDelay\<close>; \<open>rnd\<close> is the value of \<open>Math.random()\<close>, drawn only when there is jitter.
  The wrapper calls it with \<open>attempt \<ge> 1\<close> only.
\<close>

definition calculateDelay :: "int \<Rightarrow> int \<Rightarrow> BackoffStrategy \<Rightarrow> int \<Rightarrow> int \<Rightarrow> real \<Rightarrow> int" where
  "calculateDelay attempt baseDelay strategy maxJitter maxDelay rnd =
     (let delay = (case strategy of
                     Exponential \<Rightarrow> baseDelay * 2 ^ nat (attempt - 1)
                   | Linear \<Rightarrow> baseDelay * attempt
                   | Fixed \<Rightarrow> baseDelay);
          jittered = (if maxJitter > 0 then delay + \<lfloor>rnd * of_int maxJitter\<rfloor> else delay)
      in min jittered maxDelay)"

definition defaultShouldRetry :: "unknown \<Rightarrow> bool" where
  "defaultShouldRetry err =
     (case err of
        Typed e \<Rightarrow>
          (if isTimeoutError e then True
           else case asFetchError e of
                  Some f \<Rightarrow> FetchFields.status f \<ge> 500
                | None \<Rightarrow> False)
      | _ \<Rightarrow> False)"

text \<open>The options after destructuring with their defaults.\<close>

definition maxAttemptsOf :: "RetryOptions \<Rightarrow> int" where
  "maxAttemptsOf options = (case maxAttempts options of Some n \<Rightarrow> n | None \<Rightarrow> 3)"

definition delayMsOf :: "RetryOptions \<Rightarrow> int" where
  "delayMsOf options = (case delayMs options of Some n \<Rightarrow> n | None \<Rightarrow> 1000)"

definition backoffOf :: "RetryOptions \<Rightarrow> BackoffStrategy" where
  "backoffOf options = (case backoff options of Some b \<Rightarrow> b | None \<Rightarrow> Exponential)"

definition maxJitterMsOf :: "RetryOptions \<Rightarrow> int" where
  "maxJitterMsOf options = (case maxJitterMs options of Some n \<Rightarrow> n | None \<Rightarrow> 100)"

definition maxDelayMsOf :: "RetryOptions \<Rightarrow> int" where
  "maxDelayMsOf options = (case maxDelayMs options of Some n \<Rightarrow> n | None \<Rightarrow> 30000)"

definition shouldRetryOf :: "RetryOptions \<Rightarrow> unknown \<Rightarrow> int \<Rightarrow> bool" where
  "shouldRetryOf options =
     (case shouldRetry options of Some f \<Rightarrow> f | None \<Rightarrow> (\<lambda>err attempt. defaultShouldRetry err))"

text \<open>
  The \<open>for\<close> loop of \<open>withRetry\<close>, from a given attempt on. When the loop is left without an
  attempt having been made (\<open>maxAttempts < 1\<close>) the wrapper throws \<open>lastError\<close>, which is still
  \<open>undefined\<close>.
\<close>

function retryLoop ::
  "RetryOptions \<Rightarrow> RetryEnv \<Rightarrow> ('w \<Rightarrow> (unknown + 'r) \<times> 'w \<times> nat) \<Rightarrow> int \<Rightarrow> int \<Rightarrow> unknown
     \<Rightarrow> 'w RetryState \<Rightarrow> (unknown + 'r) \<times> 'w RetryState" where
  "retryLoop options env fn startTime attempt lastError st =
     (if attempt \<le> maxAttemptsOf options then
        (case fn (world st) of
           (outcome, w, duration) \<Rightarrow>
             let st1 = st\<lparr>world := w, calls := Suc (calls st), clock := clock st + int duration\<rparr>
             in (case outcome of
                   Inr result \<Rightarrow> (Inr result, st1)
                 | Inl err \<Rightarrow>
                     let totalElapsedMs = clock st1 - startTime;
                         isLastAttempt = (attempt = maxAttemptsOf options)
                     in if isLastAttempt then
                          (Inl err,
                           st1\<lparr>retryHooks := retryHooks st1 @ [OnExhausted err attempt totalElapsedMs]\<rparr>)
                        else if \<not> shouldRetryOf options err attempt then (Inl err, st1)
                        else
                          let nextDelayMs =
                                calculateDelay attempt (delayMsOf options) (backoffOf options)
                                  (maxJitterMsOf options) (maxDelayMsOf options) (random env attempt);
                              st2 = st1\<lparr>retryHooks := retryHooks st1
                                      @ [OnRetry err attempt nextDelayMs totalElapsedMs]\<rparr>;
                              st3 = sleep env attempt nextDelayMs st2
                          in retryLoop options env fn startTime (attempt + 1) err st3))
      else (Inl lastError, st))"
  by pat_completeness auto
termination
  by (relation "measure (\<lambda>(options, env, fn, startTime, attempt, lastError, st).
        nat (maxAttemptsOf options + 1 - attempt))") auto

definition withRetry ::
  "RetryOptions \<Rightarrow> RetryEnv \<Rightarrow> ('w \<Rightarrow> (unknown + 'r) \<times> 'w \<times> nat) \<Rightarrow> 'w RetryState
     \<Rightarrow> (unknown + 'r) \<times> 'w RetryState" where
  "withRetry options env fn st = retryLoop options env fn (clock st) 1 (Plain JsUndefined) st"

section \<open>Circuit storage and circuit breaker\<close>

datatype CircuitState = Closed | Open | HalfOpen

record CircuitData =
  state :: CircuitState
  failures :: int
  successes :: int
  lastFailure :: int

definition DEFAULT_CIRCUIT :: CircuitData where
  "DEFAULT_CIRCUIT = \<lparr>state = Closed, failures = 0, successes = 0, lastFailure = 0\<rparr>"

record CircuitBreakerOptions =
  failureThreshold :: "int option"
  resetTimeout :: "int option"
  successThreshold :: "int option"

definition failureThresholdOf :: "CircuitBreakerOptions \<Rightarrow> int" where
  "failureThresholdOf options = (case failureThreshold options of Some n \<Rightarrow> n | None \<Rightarrow> 5)"

definition resetTimeoutOf :: "CircuitBreakerOptions \<Rightarrow> int" where
  "resetTimeoutOf options = (case resetTimeout options of Some n \<Rightarrow> n | None \<Rightarrow> 30000)"

definition successThresholdOf :: "CircuitBreakerOptions \<Rightarrow> int" where
  "successThresholdOf options = (case successThreshold options of Some n \<Rightarrow> n | None \<Rightarrow> 2)"

text \<open>
  What the three optional hooks are called with: \<open>onStateChange\<close> with the name, the state
  left, the state entered and the failure count; \<open>onFailure\<close> with the name, the error, the
  failure count and the state; \<open>onSuccess\<close> with the name, the state and, after a call made
  half-open, the recovery progress (successes so far, successes required). Hooks are
  observers: they return normally.
\<close>

datatype CircuitEvent =
    OnStateChange string CircuitState CircuitState int  \<comment> \<open>\<open>name\<close>, \<open>from\<close>, \<open>to\<close>, \<open>failures\<close>\<close>
  | OnFailure string unknown int CircuitState  \<comment> \<open>\<open>name\<close>, \<open>error\<close>, \<open>failures\<close>, \<open>state\<close>\<close>
  | OnSuccess string CircuitState "(int \<times> int) option"  \<comment> \<open>\<open>name\<close>, \<open>state\<close>, \<open>recoveryProgress\<close>\<close>

text \<open>
  The state a call of the breaker runs in: the in-memory storage (a map from circuit names
  to circuit data, empty when the process starts), the world of the wrapped function, and
  the hook calls made so far. Calls are taken one at a time, each with the value \<open>now\<close>
  that \<open>Date.now()\<close> gives it.
\<close>

record 'w BreakerState = "'w Exec" +
  storage :: "string \<rightharpoonup> CircuitData"
  breakerHooks :: "CircuitEvent list"

definition storage_get :: "'w BreakerState \<Rightarrow> string \<Rightarrow> CircuitData option" where
  "storage_get st name = storage st name"

definition storage_set :: "string \<Rightarrow> CircuitData \<Rightarrow> 'w BreakerState \<Rightarrow> 'w BreakerState" where
  "storage_set name data st = st\<lparr>storage := (storage st)(name \<mapsto> data)\<rparr>"

definition emit :: "CircuitEvent \<Rightarrow> 'w BreakerState \<Rightarrow> 'w BreakerState" where
  "emit ev st = st\<lparr>breakerHooks := breakerHooks st @ [ev]\<rparr>"

text \<open>
  The first block of \<open>withCircuitBreaker\<close>: an open circuit whose deadline has passed is set
  half-open (and stored), an open circuit before its deadline throws, any other circuit is
  let through as it is. The result is what is thrown, or the circuit the call goes on with.
\<close>

definition checkOpen ::
  "string \<Rightarrow> CircuitBreakerOptions \<Rightarrow> int \<Rightarrow> CircuitData \<Rightarrow> 'w BreakerState
     \<Rightarrow> unknown + (CircuitData \<times> 'w BreakerState)" where
  "checkOpen name options now circuit st =
     (let prevState = state circuit in
      if state circuit = Open then
        (let resetAt = lastFailure circuit + resetTimeoutOf options in
         if now \<ge> resetAt then
           (let circuit1 = circuit\<lparr>state := HalfOpen, successes := 0\<rparr>;
                st1 = storage_set name circuit1 st;
                st2 = (if prevState \<noteq> state circuit1
                       then emit (OnStateChange name prevState (state circuit1) (failures circuit1)) st1
                       else st1)
            in Inr (circuit1, st2))
         else
           (case newCircuitOpenError name resetAt of
              Inl thrown \<Rightarrow> Inl thrown
            | Inr e \<Rightarrow> Inl (Typed e)))
      else Inr (circuit, st))"

text \<open>The \<open>try\<close> block after the wrapped function has returned.\<close>

definition handleSuccess ::
  "string \<Rightarrow> CircuitBreakerOptions \<Rightarrow> CircuitData \<Rightarrow> 'w BreakerState \<Rightarrow> 'w BreakerState" where
  "handleSuccess name options circuit st =
     (let postCallState = state circuit;
          circuit1 =
            (if state circuit = HalfOpen then
               (let c = circuit\<lparr>successes := successes circuit + 1\<rparr>
                in if successes c \<ge> successThresholdOf options
                   then c\<lparr>state := Closed, failures := 0\<rparr>
                   else c)
             else circuit\<lparr>failures := 0\<rparr>);
          st1 = storage_set name circuit1 st;
          st2 = (if postCallState \<noteq> state circuit1
                 then emit (OnStateChange name postCallState (state circuit1) (failures circuit1)) st1
                 else st1)
      in emit (OnSuccess name (state circuit1)
                 (if postCallState = HalfOpen
                  then Some (successes circuit1, successThresholdOf options)
                  else None)) st2)"

text \<open>The \<open>catch\<close> block.\<close>

definition handleFailure ::
  "string \<Rightarrow> CircuitBreakerOptions \<Rightarrow> int \<Rightarrow> unknown \<Rightarrow> CircuitData \<Rightarrow> 'w BreakerState
     \<Rightarrow> 'w BreakerState" where
  "handleFailure name options now err circuit st =
     (let postCallState = state circuit;
          c = circuit\<lparr>failures := failures circuit + 1, lastFailure := now\<rparr>;
          circuit1 = (if failures c \<ge> failureThresholdOf options then c\<lparr>state := Open\<rparr> else c);
          st1 = storage_set name circuit1 st;
          st2 = (if postCallState \<noteq> state circuit1
                 then emit (OnStateChange name postCallState (state circuit1) (failures circuit1)) st1
                 else st1)
      in emit (OnFailure name err (failures circuit1) (state circuit1)) st2)"

definition withCircuitBreaker ::
  "string \<Rightarrow> CircuitBreakerOptions \<Rightarrow> ('w \<Rightarrow> (unknown + 'r) \<times> 'w) \<Rightarrow> int \<Rightarrow> 'w BreakerState
     \<Rightarrow> (unknown + 'r) \<times> 'w BreakerState" where
  "withCircuitBreaker name options fn now st =
     (let circuit = (case storage_get st name of Some c \<Rightarrow> c | None \<Rightarrow> DEFAULT_CIRCUIT) in
      case checkOpen name options now circuit st of
        Inl thrown \<Rightarrow> (Inl thrown, st)
      | Inr (circuit1, st1) \<Rightarrow>
          (case fn (world st1) of
             (outcome, w) \<Rightarrow>
               let st2 = st1\<lparr>world := w, calls := Suc (calls st1)\<rparr>
               in (case outcome of
                     Inr result \<Rightarrow> (Inr result, handleSuccess name options circuit1 st2)
                   | Inl err \<Rightarrow> (Inl err, handleFailure name options now err circuit1 st2))))"

text \<open>
  A history of calls through one wrapped function name: each call has its \<open>now\<close> and the
  function it invokes (the same wrapped function, whose behaviour may differ from call to
  call). \<open>runCalls\<close> makes the calls in order and returns the state they leave.
\<close>

fun runCalls ::
  "string \<Rightarrow> CircuitBreakerOptions \<Rightarrow> (int \<times> ('w \<Rightarrow> (unknown + 'r) \<times> 'w)) list \<Rightarrow> 'w BreakerState
     \<Rightarrow> 'w BreakerState" where
  "runCalls name options [] st = st"
| "runCalls name options ((now, fn) # cs) st =
     runCalls name options cs (snd (withCircuitBreaker name options fn now st))"

text \<open>The circuit a name stands for: the stored one, or the default when none is stored.\<close>

definition circuitOf :: "'w BreakerState \<Rightarrow> string \<Rightarrow> CircuitData" where
  "circuitOf st name = (case storage_get st name of Some c \<Rightarrow> c | None \<Rightarrow> DEFAULT_CIRCUIT)"

definition alwaysFails :: "('w \<Rightarrow> (unknown + 'r) \<times> 'w) \<Rightarrow> bool" where
  "alwaysFails fn = (\<forall>w. isl (fst (fn w)))"

section \<open>Example inputs\<close>

text \<open>
  Concrete wrapped functions and starting states, used where a property is evaluated on an
  input. Each function counts its invocations in the world, a natural number;
  \<open>rejectsWith err\<close> always rejects with \<open>err\<close> and settles at once.
\<close>

definition rejectsWith :: "unknown \<Rightarrow> nat \<Rightarrow> (unknown + unit) \<times> nat \<times> nat" where
  "rejectsWith err w = (Inl err, Suc w, 0)"

definition failingCall :: "nat \<Rightarrow> (unknown + unit) \<times> nat" where
  "failingCall w = (Inl (Plain (JsString ''boom'')), Suc w)"

definition succeedingCall :: "nat \<Rightarrow> (unknown + unit) \<times> nat" where
  "succeedingCall w = (Inr (), Suc w)"

definition freshRetryState :: "nat RetryState" where
  "freshRetryState = \<lparr>world = 0, calls = 0, clock = 0, retryHooks = []\<rparr>"

definition freshBreakerState :: "nat BreakerState" where
  "freshBreakerState = \<lparr>world = 0, calls = 0, storage = Map.empty, breakerHooks = []\<rparr>"

definition midJitterEnv :: RetryEnv where
  "midJitterEnv = \<lparr>random = (\<lambda>attempt. 1 / 2), timerLag = (\<lambda>attempt. 0)\<rparr>"

text \<open>
  A rejection named "AbortError" that is no instance of \<open>Error\<close>: an object with the properties
  of an error, which is how an error made in another realm appears to \<open>instanceof\<close>.
\<close>

definition abortErrorLike :: unknown where
  "abortErrorLike =
     Plain (JsObject [(''name'', ''AbortError''), (''message'', ''This operation was aborted'')])"

section \<open>Properties of the classification, policy and mapping pipeline\<close>

lemmas HttpStatus_defs =
  HttpStatus_BAD_REQUEST_def HttpStatus_UNAUTHORIZED_def HttpStatus_FORBIDDEN_def
  HttpStatus_NOT_FOUND_def HttpStatus_METHOD_NOT_ALLOWED_def HttpStatus_CONFLICT_def
  HttpStatus_TOO_MANY_REQUESTS_def HttpStatus_UNPROCESSABLE_CONTENT_def
  HttpStatus_INTERNAL_SERVER_ERROR_def HttpStatus_BAD_GATEWAY_def
  HttpStatus_SERVICE_UNAVAILABLE_def HttpStatus_GATEWAY_TIMEOUT_def

lemma isValidationError_iff: "isValidationError e \<longleftrightarrow> asValidationError e \<noteq> None"
  by (cases e rule: isValidationError.cases) simp_all

text \<open>
  Claim C1. For every classified error and every policy, the transport error built by
  \<open>mapToHttpError\<close> carries the error's own message when \<open>policy.shouldExpose\<close> holds and
  the fixed string "Internal server error" otherwise; its \<open>meta\<close> is absent whenever
  \<open>shouldExpose\<close> is false, and present exactly for a validation error under a policy that
  exposes.
\<close>

theorem mapToHttpError_anti_leak:
  "HttpError.message (mapToHttpError error policy) =
     (if shouldExpose policy then message error else ''Internal server error'')
   \<and> (\<not> shouldExpose policy \<longrightarrow> HttpError.meta (mapToHttpError error policy) = None)
   \<and> (HttpError.meta (mapToHttpError error policy) \<noteq> None
        \<longleftrightarrow> shouldExpose policy \<and> isValidationError error)"
  by (auto simp: mapToHttpError_def isValidationError_iff split: option.splits)

text \<open>
  C1 on inputs: a network error whose message holds an internal address is mapped under its
  own policy to the generic message; a validation error under a policy that does not expose
  has no \<open>meta\<close>; under its own policy it has its fields as \<open>meta\<close>.
\<close>

theorem mapToHttpError_anti_leak_witness:
  "HttpError.message
     (mapToHttpError (BaseError NetworkError ''connect ECONNREFUSED 10.0.0.7:5432'' None)
        (getErrorPolicy (BaseError NetworkError ''connect ECONNREFUSED 10.0.0.7:5432'' None)))
     = ''Internal server error''
   \<and> HttpError.meta
       (mapToHttpError (BaseError (ValidationError [(''email'', ''Invalid'')]) ''Invalid'' None)
          \<lparr>shouldReport = True, shouldAlert = True, shouldExpose = False, logLevel = LogError\<rparr>)
     = None
   \<and> HttpError.meta
       (mapToHttpError (BaseError (ValidationError [(''email'', ''Invalid'')]) ''Invalid'' None)
          (getErrorPolicy (BaseError (ValidationError [(''email'', ''Invalid'')]) ''Invalid'' None)))
     = Some (VALIDATION [(''email'', ''Invalid'')])"
  using mapToHttpError_anti_leak
          [of "BaseError NetworkError ''connect ECONNREFUSED 10.0.0.7:5432'' None"
              "getErrorPolicy (BaseError NetworkError ''connect ECONNREFUSED 10.0.0.7:5432'' None)"]
        mapToHttpError_anti_leak
          [of "BaseError (ValidationError [(''email'', ''Invalid'')]) ''Invalid'' None"
              "\<lparr>shouldReport = True, shouldAlert = True, shouldExpose = False, logLevel = LogError\<rparr>"]
  by (simp add: getErrorPolicy_def mapToHttpError_def)

text \<open>
  Claim C6. \<open>getErrorPolicy\<close> is a function of the error alone that decides by the first
  rule that matches, in this order: (1) a validation error is not reported, not alerted,
  exposed and logged at "info"; (2) an upstream-response error in proxy mode is exposed, not
  reported, and logged at "warn" from status 500 up and at "info" below; (3) an
  upstream-response error in integration mode is reported, not exposed, alerted from status
  500 up, and logged at "error"; (4) any other domain error is exposed and logged at "warn";
  (5) any other infrastructure error is reported, not exposed, alerted exactly when it is not
  retryable, and logged at "error"; (6) an application error is reported, alerted, not
  exposed and logged at "error". The rules cover every error, an upstream-response error is
  itself of the infrastructure layer, so rules 2 and 3 are what keeps rule 5 from it, and a
  validation error is of the domain layer, so rule 1 is what keeps rule 4 from it.
\<close>

theorem getErrorPolicy_rules:
  "(isValidationError error \<longrightarrow>
      getErrorPolicy error =
        \<lparr>shouldReport = False, shouldAlert = False, shouldExpose = True, logLevel = LogInfo\<rparr>)
   \<and> (\<forall>r. asApiResponseError error = Some (r, Proxy) \<longrightarrow>
      getErrorPolicy error =
        \<lparr>shouldReport = False, shouldAlert = False, shouldExpose = True,
         logLevel = (if ApiErrorResponse.status r \<ge> 500 then LogWarn else LogInfo)\<rparr>)
   \<and> (\<forall>r. asApiResponseError error = Some (r, Integration) \<longrightarrow>
      getErrorPolicy error =
        \<lparr>shouldReport = True, shouldAlert = (ApiErrorResponse.status r \<ge> 500),
         shouldExpose = False, logLevel = LogError\<rparr>)
   \<and> (\<not> isValidationError error \<and> layer error = Domain \<longrightarrow>
      getErrorPolicy error =
        \<lparr>shouldReport = False, shouldAlert = False, shouldExpose = True, logLevel = LogWarn\<rparr>)
   \<and> (\<not> isApiResponseError error \<and> layer error = Infrastructure \<longrightarrow>
      getErrorPolicy error =
        \<lparr>shouldReport = True, shouldAlert = (\<not> retryable error), shouldExpose = False,
         logLevel = LogError\<rparr>)
   \<and> (layer error = Application \<longrightarrow>
      getErrorPolicy error =
        \<lparr>shouldReport = True, shouldAlert = True, shouldExpose = False, logLevel = LogError\<rparr>)
   \<and> (isApiResponseError error \<longrightarrow> layer error = Infrastructure)
   \<and> (isValidationError error \<longrightarrow> layer error = Domain)
   \<and> (isValidationError error \<or> isApiResponseError error \<or> layer error = Domain
        \<or> layer error = Infrastructure \<or> layer error = Application)"
  apply (cases error)
  subgoal for c m k
    by (cases c; cases "layer error") (simp_all add: getErrorPolicy_def)
  done

text \<open>
  C6 on inputs: a validation error, an upstream 503 in proxy mode and in integration mode, a
  domain error with a code of its own, a network error (retryable) and a fetch error with
  status 404 (not retryable), and an unexpected error.
\<close>

theorem getErrorPolicy_rules_witness:
  "getErrorPolicy (BaseError (ValidationError [(''email'', ''Invalid'')]) ''Invalid'' None)
     = \<lparr>shouldReport = False, shouldAlert = False, shouldExpose = True, logLevel = LogInfo\<rparr>
   \<and> getErrorPolicy
       (newApiResponseError
          \<lparr>timestamp = ''2024-01-15T10:30:00.000Z'', code = ''UPSTREAM_DOWN'', message = ''down'',
           status = 503, requestId = None, retryable = None, layer = None, meta = None\<rparr> Proxy)
     = \<lparr>shouldReport = False, shouldAlert = False, shouldExpose = True, logLevel = LogWarn\<rparr>
   \<and> getErrorPolicy
       (newApiResponseError
          \<lparr>timestamp = ''2024-01-15T10:30:00.000Z'', code = ''UPSTREAM_DOWN'', message = ''down'',
           status = 503, requestId = None, retryable = None, layer = None, meta = None\<rparr> Integration)
     = \<lparr>shouldReport = True, shouldAlert = True, shouldExpose = False, logLevel = LogError\<rparr>
   \<and> getErrorPolicy (BaseError (OtherDomainError ''InsufficientFundsError'' ''INSUFFICIENT_FUNDS'') ''No funds'' None)
     = \<lparr>shouldReport = False, shouldAlert = False, shouldExpose = True, logLevel = LogWarn\<rparr>
   \<and> getErrorPolicy (BaseError NetworkError ''Connection refused'' None)
     = \<lparr>shouldReport = True, shouldAlert = False, shouldExpose = False, logLevel = LogError\<rparr>
   \<and> getErrorPolicy
       (BaseError (FetchError \<lparr>url = ''https://api.example.com/jobs'', httpMethod = ''GET'', status = 404,
                               statusText = ''Not Found'', body = None, idempotencyKey = None\<rparr>)
          ''Bad response'' None)
     = \<lparr>shouldReport = True, shouldAlert = True, shouldExpose = False, logLevel = LogError\<rparr>
   \<and> getErrorPolicy (newUnexpectedError (Some (Plain JsNull)))
     = \<lparr>shouldReport = True, shouldAlert = True, shouldExpose = False, logLevel = LogError\<rparr>"
  using getErrorPolicy_rules
          [of "BaseError (ValidationError [(''email'', ''Invalid'')]) ''Invalid'' None"]
        getErrorPolicy_rules
          [of "newApiResponseError
                 \<lparr>timestamp = ''2024-01-15T10:30:00.000Z'', code = ''UPSTREAM_DOWN'', message = ''down'',
                  status = 503, requestId = None, retryable = None, layer = None, meta = None\<rparr> Proxy"]
        getErrorPolicy_rules
          [of "newApiResponseError
                 \<lparr>timestamp = ''2024-01-15T10:30:00.000Z'', code = ''UPSTREAM_DOWN'', message = ''down'',
                  status = 503, requestId = None, retryable = None, layer = None, meta = None\<rparr> Integration"]
        getErrorPolicy_rules
          [of "BaseError (OtherDomainError ''InsufficientFundsError'' ''INSUFFICIENT_FUNDS'') ''No funds'' None"]
        getErrorPolicy_rules [of "BaseError NetworkError ''Connection refused'' None"]
        getErrorPolicy_rules
          [of "BaseError (FetchError \<lparr>url = ''https://api.example.com/jobs'', httpMethod = ''GET'', status = 404,
                               statusText = ''Not Found'', body = None, idempotencyKey = None\<rparr>)
                 ''Bad response'' None"]
        getErrorPolicy_rules [of "newUnexpectedError (Some (Plain JsNull))"]
  by (simp add: newApiResponseError_def newUnexpectedError_def HttpStatus_defs)

text \<open>
  Claim C7. For a \<open>FetchError\<close>, the status the transport mapper determines is 429 ("too
  many requests") when the upstream status is 429, and 502 ("bad gateway") for every other
  upstream status, any other 4xx included: the rate-limit test comes first.
\<close>

theorem determineStatus_FetchError:
  "asFetchError error = Some f \<Longrightarrow>
     determineStatus error =
       (if FetchFields.status f = HttpStatus_TOO_MANY_REQUESTS then HttpStatus_TOO_MANY_REQUESTS
        else HttpStatus_BAD_GATEWAY)
     \<and> HttpStatus_TOO_MANY_REQUESTS = 429 \<and> HttpStatus_BAD_GATEWAY = 502"
  by (cases error rule: asFetchError.cases) (simp_all add: determineStatus_def HttpStatus_defs)

text \<open>C7 on inputs: an upstream 429 maps to 429, an upstream 404 and an upstream 500 to 502.\<close>

theorem determineStatus_FetchError_witness:
  "determineStatus
     (BaseError (FetchError \<lparr>url = ''https://api.example.com/jobs'', httpMethod = ''GET'', status = 429,
                             statusText = ''Too Many Requests'', body = None, idempotencyKey = None\<rparr>)
        ''Bad response'' None) = 429
   \<and> determineStatus
     (BaseError (FetchError \<lparr>url = ''https://api.example.com/jobs'', httpMethod = ''GET'', status = 404,
                             statusText = ''Not Found'', body = None, idempotencyKey = None\<rparr>)
        ''Bad response'' None) = 502
   \<and> determineStatus
     (BaseError (FetchError \<lparr>url = ''https://api.example.com/jobs'', httpMethod = ''GET'', status = 500,
                             statusText = ''Internal Server Error'', body = None, idempotencyKey = None\<rparr>)
        ''Bad response'' None) = 502"
proof -
  have fetch: "asFetchError (BaseError (FetchError f) m k) = Some f" for f m k
    by simp
  have status: "determineStatus (BaseError (FetchError f) m k) =
       (if FetchFields.status f = 429 then 429 else 502)" for f m k
    using determineStatus_FetchError [OF fetch [of f m k]] by (simp add: HttpStatus_defs)
  show ?thesis
    by (simp add: status)
qed

text \<open>
  Claim C8. \<open>classifyError\<close> is idempotent, and a value that is a \<open>BaseError\<close> already is
  returned as it is. (Values have no identity here beyond their contents: "the same
  instance" is the same value.)
\<close>

theorem classifyError_idempotent:
  "classifyError (Typed (classifyError x)) = classifyError x \<and> classifyError (Typed e) = e"
  by (simp add: classifyError_def)

text \<open>
  C8 on inputs: the \<open>TypeError\<close> of a failed fetch is classified as a network error, and
  classifying the result again yields it unchanged; so for a timeout error that is typed
  already.
\<close>

theorem classifyError_idempotent_witness:
  "classifyError (Typed (classifyError (NativeError ''TypeError'' ''Failed to fetch'' None)))
     = BaseError NetworkError ''Failed to fetch'' (Some (NativeError ''TypeError'' ''Failed to fetch'' None))
   \<and> classifyError (Typed (newTimeoutError 5000)) = newTimeoutError 5000"
proof -
  have lower: "toLowerCase ''Failed to fetch'' = ''failed to fetch''"
    by code_simp
  have found: "includes_str ''failed to fetch'' ''fetch''"
    by code_simp
  have "classifyError (NativeError ''TypeError'' ''Failed to fetch'' None)
     = BaseError NetworkError ''Failed to fetch'' (Some (NativeError ''TypeError'' ''Failed to fetch'' None))"
    by (simp add: classifyError_def newNetworkError_def lower found Let_def)
  then show ?thesis
    using classifyError_idempotent
            [of "NativeError ''TypeError'' ''Failed to fetch'' None" "newTimeoutError 5000"]
    by simp
qed

text \<open>
  Claim C10. Every \<open>TimeoutError\<close> is retryable, so the transport mapper gives every
  \<open>TimeoutError\<close> the status 503 ("service unavailable"), never 504 ("gateway timeout"): no
  error takes the branch for a timeout that is not retryable.
\<close>

theorem TimeoutError_always_503:
  "isTimeoutError error \<Longrightarrow>
     retryable error
     \<and> determineStatus error = HttpStatus_SERVICE_UNAVAILABLE
     \<and> determineStatus error \<noteq> HttpStatus_GATEWAY_TIMEOUT
     \<and> HttpStatus_SERVICE_UNAVAILABLE = 503 \<and> HttpStatus_GATEWAY_TIMEOUT = 504"
  by (cases error rule: isTimeoutError.cases) (simp_all add: determineStatus_def HttpStatus_defs)

text \<open>C10 on an input: the error \<open>new TimeoutError(5000)\<close>.\<close>

theorem TimeoutError_always_503_witness:
  "isTimeoutError (newTimeoutError 5000) \<and> retryable (newTimeoutError 5000)
   \<and> determineStatus (newTimeoutError 5000) = 503"
  using TimeoutError_always_503 [of "newTimeoutError 5000"]
  by (simp add: newTimeoutError_def)

section \<open>Properties of the timeout wrapper\<close>

text \<open>
  Claim C9 as stated fails: a rejection whose name is "AbortError" is not translated when
  it is no instance of \<open>Error\<close>. The wrapper tests \<open>err instanceof Error\<close> before it reads the
  name, so such a rejection passes through as it is, and no \<open>TimeoutError\<close> is raised.
\<close>

theorem withTimeout_AbortError_not_an_Error_counterexample:
  "errorName abortErrorLike = Some ''AbortError''
   \<and> withTimeout 5000 (\<lambda>p. Inl abortErrorLike :: unknown + int) \<lparr>initParams = None\<rparr>
       = Inl abortErrorLike
   \<and> withTimeout 5000 (\<lambda>p. Inl abortErrorLike :: unknown + int) \<lparr>initParams = None\<rparr>
       \<noteq> Inl (Typed (newTimeoutError 5000))"
  by (simp add: withTimeout_def abortErrorLike_def)

text \<open>
  Claim C9, amended. Whatever the wrapped function and its parameters, \<open>withTimeout\<close> turns a
  rejection that is an instance of \<open>Error\<close> named "AbortError" into a \<open>TimeoutError\<close> whose
  \<open>timeoutMs\<close> is the configured duration; every other rejection, a value named "AbortError"
  that is no instance of \<open>Error\<close> among them, and every result pass through unchanged.
\<close>

theorem withTimeout_outcome:
  "(\<forall>err. fn (withSignal timeoutMs params) = Inl err \<and> isError err
           \<and> errorName err = Some ''AbortError''
       \<longrightarrow> withTimeout timeoutMs fn params = Inl (Typed (newTimeoutError timeoutMs))
           \<and> isTimeoutError (newTimeoutError timeoutMs)
           \<and> timeoutMsOf (Typed (newTimeoutError timeoutMs)) = Some timeoutMs)
   \<and> (\<forall>err. fn (withSignal timeoutMs params) = Inl err
           \<and> \<not> (isError err \<and> errorName err = Some ''AbortError'')
       \<longrightarrow> withTimeout timeoutMs fn params = Inl err)
   \<and> (\<forall>result. fn (withSignal timeoutMs params) = Inr result
       \<longrightarrow> withTimeout timeoutMs fn params = Inr result)"
  by (auto simp: withTimeout_def newTimeoutError_def)

text \<open>
  C9 on inputs, with a timeout of 5000 ms: a function rejecting with an \<open>AbortError\<close>, one
  rejecting with a network error, and one returning 42.
\<close>

theorem withTimeout_outcome_witness:
  "withTimeout 5000
     (\<lambda>p. Inl (NativeError ''AbortError'' ''This operation was aborted'' None) :: unknown + int)
     \<lparr>initParams = None\<rparr>
     = Inl (Typed (BaseError (TimeoutError 5000) ''Request timed out after 5000ms'' None))
   \<and> withTimeout 5000
     (\<lambda>p. Inl (Typed (BaseError NetworkError ''Connection refused'' None)) :: unknown + int)
     \<lparr>initParams = None\<rparr>
     = Inl (Typed (BaseError NetworkError ''Connection refused'' None))
   \<and> withTimeout 5000 (\<lambda>p. Inr 42 :: unknown + int) \<lparr>initParams = None\<rparr> = Inr 42"
proof -
  have d: "number_toString 5000 = ''5000''"
    by (simp add: number_toString_def digit_char_def)
  show ?thesis
    using withTimeout_outcome
            [of "\<lambda>p. Inl (NativeError ''AbortError'' ''This operation was aborted'' None) :: unknown + int"
                5000 "\<lparr>initParams = None\<rparr>"]
          withTimeout_outcome
            [of "\<lambda>p. Inl (Typed (BaseError NetworkError ''Connection refused'' None)) :: unknown + int"
                5000 "\<lparr>initParams = None\<rparr>"]
          withTimeout_outcome [of "\<lambda>p. Inr 42 :: unknown + int" 5000 "\<lparr>initParams = None\<rparr>"]
    by (simp add: newTimeoutError_def d)
qed

section \<open>Properties of the retry wrapper\<close>

lemma isNetworkError_not_retried: "isNetworkError e \<Longrightarrow> \<not> defaultShouldRetry (Typed e)"
  by (cases e rule: isNetworkError.cases) (simp_all add: defaultShouldRetry_def)

text \<open>One turn of the loop, for each of the three ways a failed attempt ends.\<close>

lemma retryLoop_retry:
  assumes "attempt < maxAttemptsOf options"
      and "fn (world st) = (Inl err, w, d)"
      and "shouldRetryOf options err attempt"
  shows "retryLoop options env fn startTime attempt lastError st =
           retryLoop options env fn startTime (attempt + 1) err
             (sleep env attempt
                (calculateDelay attempt (delayMsOf options) (backoffOf options)
                   (maxJitterMsOf options) (maxDelayMsOf options) (random env attempt))
                (st\<lparr>world := w, calls := Suc (calls st), clock := clock st + int d,
                    retryHooks := retryHooks st
                      @ [OnRetry err attempt
                           (calculateDelay attempt (delayMsOf options) (backoffOf options)
                              (maxJitterMsOf options) (maxDelayMsOf options) (random env attempt))
                           (clock st + int d - startTime)]\<rparr>))"
  using assms by (subst retryLoop.simps) (simp add: Let_def)

lemma retryLoop_exhausted:
  assumes "attempt = maxAttemptsOf options"
      and "fn (world st) = (Inl err, w, d)"
  shows "retryLoop options env fn startTime attempt lastError st =
           (Inl err,
            st\<lparr>world := w, calls := Suc (calls st), clock := clock st + int d,
               retryHooks := retryHooks st
                 @ [OnExhausted err attempt (clock st + int d - startTime)]\<rparr>)"
  using assms by (subst retryLoop.simps) (simp add: Let_def)

lemma retryLoop_abort:
  assumes "attempt < maxAttemptsOf options"
      and "fn (world st) = (Inl err, w, d)"
      and "\<not> shouldRetryOf options err attempt"
  shows "retryLoop options env fn startTime attempt lastError st =
           (Inl err, st\<lparr>world := w, calls := Suc (calls st), clock := clock st + int d\<rparr>)"
  using assms by (subst retryLoop.simps) (simp add: Let_def)

lemma sleep_fields [simp]:
  "world (sleep env k ms st) = world st"
  "calls (sleep env k ms st) = calls st"
  "retryHooks (sleep env k ms st) = retryHooks st"
  "clock (sleep env k ms st) = clock st + timerDelay ms + int (timerLag env k)"
  by (simp_all add: sleep_def)

lemma sleep_at_least:
  "ms \<le> 2147483647 \<Longrightarrow> clock st + ms \<le> clock (sleep env k ms st)"
  by (simp add: sleep_def timerDelay_def)

text \<open>The jitter \<open>Math.floor(Math.random() * maxJitter)\<close> lies between 0 and \<open>maxJitter\<close>.\<close>

lemma jitter_bounds:
  fixes r :: real
  assumes "0 \<le> J" "0 \<le> r" "r < 1"
  shows "0 \<le> \<lfloor>r * of_int J\<rfloor>" and "\<lfloor>r * of_int J\<rfloor> \<le> J"
proof -
  show "0 \<le> \<lfloor>r * of_int J\<rfloor>" using assms by simp
  have "r * of_int J \<le> of_int J"
    using assms by (simp add: mult_left_le_one_le)
  then show "\<lfloor>r * of_int J\<rfloor> \<le> J" by (simp add: floor_le_iff)
qed

lemma jittered_within:
  fixes r :: real
  assumes "0 \<le> J" "0 \<le> r" "r < 1" "B + J \<le> cap"
  shows "B \<le> min (if 0 < J then B + \<lfloor>r * of_int J\<rfloor> else B) cap"
    and "min (if 0 < J then B + \<lfloor>r * of_int J\<rfloor> else B) cap \<le> B + J"
proof -
  define j where "j = \<lfloor>r * of_int J\<rfloor>"
  have lo: "0 \<le> j" and hi: "j \<le> J"
    using jitter_bounds [OF assms(1-3)] by (simp_all add: j_def)
  have "B \<le> min (if 0 < J then B + j else B) cap"
    using lo hi assms(1,4) by (simp add: min_def)
  then show "B \<le> min (if 0 < J then B + \<lfloor>r * of_int J\<rfloor> else B) cap"
    by (simp only: j_def)
  have "min (if 0 < J then B + j else B) cap \<le> B + J"
    using lo hi assms(1,4) by (simp add: min_def)
  then show "min (if 0 < J then B + \<lfloor>r * of_int J\<rfloor> else B) cap \<le> B + J"
    by (simp only: j_def)
qed

lemma exponential_delay:
  assumes "0 \<le> J" "0 \<le> r" "r < 1" "base * 2 ^ nat (attempt - 1) + J \<le> cap"
  shows "base * 2 ^ nat (attempt - 1) \<le> calculateDelay attempt base Exponential J cap r"
    and "calculateDelay attempt base Exponential J cap r \<le> base * 2 ^ nat (attempt - 1) + J"
  using jittered_within [OF assms] by (simp_all add: calculateDelay_def Let_def)

lemma fixed_delay_lower:
  assumes "0 \<le> rnd"
  shows "min base maxDelay \<le> calculateDelay attempt base Fixed maxJitter maxDelay rnd"
proof (cases "0 < maxJitter")
  case True
  then have "0 \<le> \<lfloor>rnd * of_int maxJitter\<rfloor>" using assms by simp
  then have "min base maxDelay \<le> min (base + \<lfloor>rnd * of_int maxJitter\<rfloor>) maxDelay"
    by linarith
  then show ?thesis using True by (simp add: calculateDelay_def Let_def)
next
  case False
  then show ?thesis by (simp add: calculateDelay_def Let_def)
qed

lemma delay_capped: "calculateDelay attempt base strategy maxJitter maxDelay rnd \<le> maxDelay"
  by (simp add: calculateDelay_def Let_def)

lemmas retry_eval =
  withRetry_def retryLoop.simps maxAttemptsOf_def delayMsOf_def backoffOf_def maxJitterMsOf_def
  maxDelayMsOf_def shouldRetryOf_def defaultShouldRetry_def calculateDelay_def sleep_def
  timerDelay_def Let_def rejectsWith_def freshRetryState_def midJitterEnv_def

text \<open>
  Claim C4, as stated, fails. A function that always raises a network failure, wrapped by
  \<open>withRetry\<close> with \<open>maxAttempts = 3\<close>, \<open>backoff = "fixed"\<close>, \<open>delayMs = 10\<close> and the
  default retry predicate, is invoked once, not three times, and no time is spent waiting:
  the default predicate retries a \<open>TimeoutError\<close> and a \<open>FetchError\<close> with status 500 or
  above, nothing else.
\<close>

theorem withRetry_default_network_failure_counterexample:
  "fst (withRetry \<lparr>maxAttempts = Some 3, delayMs = Some 10, backoff = Some Fixed,
                   maxJitterMs = None, maxDelayMs = None, shouldRetry = None\<rparr>
          midJitterEnv (rejectsWith (Typed (newNetworkError ''connect ECONNREFUSED'' None)))
          freshRetryState)
     = Inl (Typed (newNetworkError ''connect ECONNREFUSED'' None))
   \<and> calls (snd (withRetry \<lparr>maxAttempts = Some 3, delayMs = Some 10, backoff = Some Fixed,
                   maxJitterMs = None, maxDelayMs = None, shouldRetry = None\<rparr>
          midJitterEnv (rejectsWith (Typed (newNetworkError ''connect ECONNREFUSED'' None)))
          freshRetryState)) = 1
   \<and> clock (snd (withRetry \<lparr>maxAttempts = Some 3, delayMs = Some 10, backoff = Some Fixed,
                   maxJitterMs = None, maxDelayMs = None, shouldRetry = None\<rparr>
          midJitterEnv (rejectsWith (Typed (newNetworkError ''connect ECONNREFUSED'' None)))
          freshRetryState)) - clock freshRetryState = 0
   \<and> \<not> (calls (snd (withRetry \<lparr>maxAttempts = Some 3, delayMs = Some 10, backoff = Some Fixed,
                   maxJitterMs = None, maxDelayMs = None, shouldRetry = None\<rparr>
          midJitterEnv (rejectsWith (Typed (newNetworkError ''connect ECONNREFUSED'' None)))
          freshRetryState)) = 3
        \<and> 20 \<le> clock (snd (withRetry \<lparr>maxAttempts = Some 3, delayMs = Some 10, backoff = Some Fixed,
                   maxJitterMs = None, maxDelayMs = None, shouldRetry = None\<rparr>
          midJitterEnv (rejectsWith (Typed (newNetworkError ''connect ECONNREFUSED'' None)))
          freshRetryState)) - clock freshRetryState)"
proof -
  have run: "withRetry \<lparr>maxAttempts = Some 3, delayMs = Some 10, backoff = Some Fixed,
                   maxJitterMs = None, maxDelayMs = None, shouldRetry = None\<rparr>
          midJitterEnv (rejectsWith (Typed (newNetworkError ''connect ECONNREFUSED'' None)))
          freshRetryState
        = (Inl (Typed (newNetworkError ''connect ECONNREFUSED'' None)),
           \<lparr>world = 1, calls = 1, clock = 0, retryHooks = []\<rparr>)"
    by (simp add: retry_eval newNetworkError_def)
  show ?thesis
    unfolding run by (simp add: freshRetryState_def)
qed

text \<open>
  Claim C4, amended. Take \<open>withRetry\<close> with \<open>maxAttempts = 3\<close>, \<open>backoff = "fixed"\<close>,
  \<open>delayMs = 10\<close> (jitter and cap at their defaults) and a function that always raises the
  same failure. With the default retry predicate and a network failure, the function is
  invoked exactly once and the failure is rethrown at once: no hook is called and the clock
  advances by the invocation alone. With a retry predicate that accepts the failure after
  attempts 1 and 2 (a predicate of the caller's, or the default one for a \<open>TimeoutError\<close> or a
  \<open>FetchError\<close> with status 500 or above), the function is invoked exactly 3 times, at least
  20 ms elapse, and the failure rethrown is the original one.
\<close>

theorem withRetry_fixed_three_attempts:
  fixes fn :: "'w \<Rightarrow> (unknown + 'r) \<times> 'w \<times> nat"
  assumes opts: "options = \<lparr>maxAttempts = Some 3, delayMs = Some 10, backoff = Some Fixed,
                   maxJitterMs = None, maxDelayMs = None, shouldRetry = predicate\<rparr>"
      and fails: "\<forall>w. fst (fn w) = Inl err"
      and rnd: "\<forall>k. 0 \<le> random env k"
  shows "(predicate = None \<and> (\<exists>e. err = Typed e \<and> isNetworkError e) \<longrightarrow>
            fst (withRetry options env fn st) = Inl err
            \<and> calls (snd (withRetry options env fn st)) = calls st + 1
            \<and> world (snd (withRetry options env fn st)) = fst (snd (fn (world st)))
            \<and> clock (snd (withRetry options env fn st)) = clock st + int (snd (snd (fn (world st))))
            \<and> retryHooks (snd (withRetry options env fn st)) = retryHooks st)
       \<and> (shouldRetryOf options err 1 \<and> shouldRetryOf options err 2 \<longrightarrow>
            fst (withRetry options env fn st) = Inl err
            \<and> calls (snd (withRetry options env fn st)) = calls st + 3
            \<and> world (snd (withRetry options env fn st))
                = fst (snd (fn (fst (snd (fn (fst (snd (fn (world st)))))))))
            \<and> clock st + 20 \<le> clock (snd (withRetry options env fn st)))"
proof (intro conjI impI)
  have max: "maxAttemptsOf options = 3" by (simp add: opts maxAttemptsOf_def)
  have f: "fn w = (Inl err, fst (snd (fn w)), snd (snd (fn w)))" for w
    using fails by (metis prod.collapse)
  {
    assume a: "predicate = None \<and> (\<exists>e. err = Typed e \<and> isNetworkError e)"
    then have no: "\<not> shouldRetryOf options err 1"
      by (auto simp: shouldRetryOf_def opts isNetworkError_not_retried)
    have r: "withRetry options env fn st =
               (Inl err, st\<lparr>world := fst (snd (fn (world st))), calls := Suc (calls st),
                           clock := clock st + int (snd (snd (fn (world st))))\<rparr>)"
      unfolding withRetry_def
      by (rule retryLoop_abort [OF _ f no]) (simp add: max)
    show "fst (withRetry options env fn st) = Inl err" by (simp add: r)
    show "calls (snd (withRetry options env fn st)) = calls st + 1" by (simp add: r)
    show "world (snd (withRetry options env fn st)) = fst (snd (fn (world st)))" by (simp add: r)
    show "clock (snd (withRetry options env fn st)) = clock st + int (snd (snd (fn (world st))))"
      by (simp add: r)
    show "retryHooks (snd (withRetry options env fn st)) = retryHooks st" by (simp add: r)
  }
  {
    assume a: "shouldRetryOf options err 1 \<and> shouldRetryOf options err 2"
    define d1 where "d1 = calculateDelay 1 (delayMsOf options) (backoffOf options)
                   (maxJitterMsOf options) (maxDelayMsOf options) (random env 1)"
    define d2 where "d2 = calculateDelay 2 (delayMsOf options) (backoffOf options)
                   (maxJitterMsOf options) (maxDelayMsOf options) (random env 2)"
    have lo: "10 \<le> d1" "10 \<le> d2"
      using fixed_delay_lower [of "random env 1" 10 30000 1 100]
            fixed_delay_lower [of "random env 2" 10 30000 2 100] rnd
      by (simp_all add: d1_def d2_def opts delayMsOf_def backoffOf_def maxJitterMsOf_def
            maxDelayMsOf_def)
    define w1 where "w1 = fst (snd (fn (world st)))"
    define w2 where "w2 = fst (snd (fn w1))"
    define w3 where "w3 = fst (snd (fn w2))"
    define s1 where "s1 = sleep env 1 d1
        (st\<lparr>world := w1, calls := Suc (calls st),
            clock := clock st + int (snd (snd (fn (world st)))),
            retryHooks := retryHooks st
              @ [OnRetry err 1 d1 (clock st + int (snd (snd (fn (world st)))) - clock st)]\<rparr>)"
    define s2 where "s2 = sleep env 2 d2
        (s1\<lparr>world := w2, calls := Suc (calls s1),
            clock := clock s1 + int (snd (snd (fn (world s1)))),
            retryHooks := retryHooks s1
              @ [OnRetry err 2 d2 (clock s1 + int (snd (snd (fn (world s1)))) - clock st)]\<rparr>)"
    have ws1: "world s1 = w1" by (simp add: s1_def)
    have ws2: "world s2 = w2" by (simp add: s2_def)
    have e1: "withRetry options env fn st = retryLoop options env fn (clock st) 2 err s1"
      unfolding withRetry_def s1_def d1_def w1_def
      using retryLoop_retry [of 1 options fn st err _ _ env "clock st" "Plain JsUndefined", OF _ f] a
      by (simp add: max)
    have e2: "retryLoop options env fn (clock st) 2 err s1
                = retryLoop options env fn (clock st) 3 err s2"
      unfolding s2_def d2_def
      using retryLoop_retry [of 2 options fn s1 err _ _ env "clock st" err, OF _ f] a
      by (simp add: max ws1 w2_def)
    have e3: "retryLoop options env fn (clock st) 3 err s2 =
                (Inl err, s2\<lparr>world := w3, calls := Suc (calls s2),
                   clock := clock s2 + int (snd (snd (fn (world s2)))),
                   retryHooks := retryHooks s2
                     @ [OnExhausted err 3 (clock s2 + int (snd (snd (fn (world s2)))) - clock st)]\<rparr>)"
      using retryLoop_exhausted [of 3 options fn s2 err _ _ env "clock st" err, OF _ f]
      by (simp add: max ws2 w3_def)
    note r = e1 [unfolded e2 e3]
    show "fst (withRetry options env fn st) = Inl err" by (simp add: r)
    show "calls (snd (withRetry options env fn st)) = calls st + 3"
      by (simp add: r s2_def s1_def)
    show "world (snd (withRetry options env fn st))
            = fst (snd (fn (fst (snd (fn (fst (snd (fn (world st)))))))))"
      by (simp add: r w3_def w2_def w1_def)
    have hi: "d1 \<le> 30000" "d2 \<le> 30000"
      using delay_capped [of 1 10 Fixed 100 30000 "random env 1"]
            delay_capped [of 2 10 Fixed 100 30000 "random env 2"]
      by (simp_all add: d1_def d2_def opts delayMsOf_def backoffOf_def maxJitterMsOf_def
            maxDelayMsOf_def)
    have "clock st + 10 \<le> clock s1" using lo hi by (simp add: s1_def timerDelay_def)
    moreover have "clock s1 + 10 \<le> clock s2" using lo hi by (simp add: s2_def timerDelay_def)
    ultimately show "clock st + 20 \<le> clock (snd (withRetry options env fn st))"
      by (simp add: r)
  }
qed

text \<open>
  C4, amended, on inputs: a function that always raises the same network error and counts
  its invocations, under the default predicate (one invocation) and under a predicate that
  always accepts (three invocations, at least 20 ms).
\<close>

theorem withRetry_fixed_three_attempts_witness:
  "calls (snd (withRetry \<lparr>maxAttempts = Some 3, delayMs = Some 10, backoff = Some Fixed,
                   maxJitterMs = None, maxDelayMs = None, shouldRetry = None\<rparr>
          midJitterEnv (rejectsWith (Typed (newNetworkError ''connect ECONNREFUSED'' None)))
          freshRetryState)) = 1
   \<and> fst (withRetry \<lparr>maxAttempts = Some 3, delayMs = Some 10, backoff = Some Fixed,
                   maxJitterMs = None, maxDelayMs = None, shouldRetry = Some (\<lambda>err attempt. True)\<rparr>
          midJitterEnv (rejectsWith (Typed (newNetworkError ''connect ECONNREFUSED'' None)))
          freshRetryState)
     = Inl (Typed (newNetworkError ''connect ECONNREFUSED'' None))
   \<and> calls (snd (withRetry \<lparr>maxAttempts = Some 3, delayMs = Some 10, backoff = Some Fixed,
                   maxJitterMs = None, maxDelayMs = None, shouldRetry = Some (\<lambda>err attempt. True)\<rparr>
          midJitterEnv (rejectsWith (Typed (newNetworkError ''connect ECONNREFUSED'' None)))
          freshRetryState)) = 3
   \<and> world (snd (withRetry \<lparr>maxAttempts = Some 3, delayMs = Some 10, backoff = Some Fixed,
                   maxJitterMs = None, maxDelayMs = None, shouldRetry = Some (\<lambda>err attempt. True)\<rparr>
          midJitterEnv (rejectsWith (Typed (newNetworkError ''connect ECONNREFUSED'' None)))
          freshRetryState)) = 3
   \<and> 20 \<le> clock (snd (withRetry \<lparr>maxAttempts = Some 3, delayMs = Some 10, backoff = Some Fixed,
                   maxJitterMs = None, maxDelayMs = None, shouldRetry = Some (\<lambda>err attempt. True)\<rparr>
          midJitterEnv (rejectsWith (Typed (newNetworkError ''connect ECONNREFUSED'' None)))
          freshRetryState))"
proof -
  have fails: "\<forall>w. fst (rejectsWith err w) = Inl err" for err
    by (simp add: rejectsWith_def)
  have rnd: "\<forall>k. 0 \<le> random midJitterEnv k"
    by (simp add: midJitterEnv_def)
  have net: "\<exists>e. Typed (newNetworkError ''connect ECONNREFUSED'' None) = Typed e \<and> isNetworkError e"
    by (simp add: newNetworkError_def)
  have acc: "shouldRetryOf \<lparr>maxAttempts = Some 3, delayMs = Some 10, backoff = Some Fixed,
                   maxJitterMs = None, maxDelayMs = None, shouldRetry = Some (\<lambda>err attempt. True)\<rparr>
               err k" for err k
    by (simp add: shouldRetryOf_def)
  have w: "fst (snd (rejectsWith err n)) = Suc n" for err n
    by (simp add: rejectsWith_def)
  show ?thesis
    using withRetry_fixed_three_attempts
            [where predicate = None and st = freshRetryState, OF refl fails rnd] net
          withRetry_fixed_three_attempts
            [where predicate = "Some (\<lambda>err attempt. True)" and st = freshRetryState,
             OF refl fails rnd] acc
    by (simp add: w freshRetryState_def)
qed

text \<open>
  Claim C5, as stated, fails. With \<open>backoff = "exponential"\<close> and \<open>delayMs = 1000\<close> (three
  attempts, jitter up to 100 ms and cap at their defaults), the delay computed after attempt
  1 has failed, which is waited before attempt 2, is 1050 ms when \<open>Math.random()\<close> gives one
  half: below 2000. The delay of 2050 ms is the one before attempt 3.
\<close>

theorem exponential_delay_before_attempt_2_counterexample:
  "retryHooks (snd (withRetry \<lparr>maxAttempts = Some 3, delayMs = Some 1000, backoff = Some Exponential,
                     maxJitterMs = None, maxDelayMs = None, shouldRetry = None\<rparr>
            midJitterEnv (rejectsWith (Typed (newTimeoutError 5000))) freshRetryState))
     = [OnRetry (Typed (newTimeoutError 5000)) 1 1050 0,
        OnRetry (Typed (newTimeoutError 5000)) 2 2050 1050,
        OnExhausted (Typed (newTimeoutError 5000)) 3 3100]
   \<and> calculateDelay 1 1000 Exponential 100 30000 (1 / 2) = 1050
   \<and> \<not> (2000 \<le> calculateDelay 1 1000 Exponential 100 30000 (1 / 2)
        \<and> calculateDelay 1 1000 Exponential 100 30000 (1 / 2) \<le> 2000 + 100)"
proof -
  have run: "retryHooks (snd (withRetry \<lparr>maxAttempts = Some 3, delayMs = Some 1000, backoff = Some Exponential,
                     maxJitterMs = None, maxDelayMs = None, shouldRetry = None\<rparr>
            midJitterEnv (rejectsWith (Typed (newTimeoutError 5000))) freshRetryState))
     = [OnRetry (Typed (newTimeoutError 5000)) 1 1050 0,
        OnRetry (Typed (newTimeoutError 5000)) 2 2050 1050,
        OnExhausted (Typed (newTimeoutError 5000)) 3 3100]"
    by (simp add: retry_eval newTimeoutError_def)
  have d: "calculateDelay 1 1000 Exponential 100 30000 (1 / 2) = 1050"
    by (simp add: calculateDelay_def)
  show ?thesis
    unfolding d using run by simp
qed

text \<open>
  Claim C5, amended. With \<open>backoff = "exponential"\<close>, \<open>delayMs = 1000\<close>, a jitter bound
  \<open>maxJitterMs \<ge> 0\<close> and a cap that is not reached (\<open>2000 + maxJitterMs \<le> maxDelayMs\<close>), the
  delay \<open>withRetry\<close> computes after attempt 1 has failed, reports to \<open>onRetry\<close> and waits
  before attempt 2 lies in \<open>[1000, 1000 + maxJitterMs]\<close>; the delay it computes after attempt
  2 has failed and waits before attempt 3 lies in \<open>[2000, 2000 + maxJitterMs]\<close>. The wait
  itself takes at least the delay (a delay that a timer can hold).
\<close>

theorem exponential_delay_before_attempts:
  fixes fn :: "'w \<Rightarrow> (unknown + 'r) \<times> 'w \<times> nat"
  assumes "backoffOf options = Exponential" and "delayMsOf options = 1000"
      and "0 \<le> maxJitterMsOf options"
      and "2000 + maxJitterMsOf options \<le> maxDelayMsOf options"
      and "\<forall>k. 0 \<le> random env k \<and> random env k < 1"
      and "delay1 = calculateDelay 1 (delayMsOf options) (backoffOf options)
                      (maxJitterMsOf options) (maxDelayMsOf options) (random env 1)"
      and "delay2 = calculateDelay 2 (delayMsOf options) (backoffOf options)
                      (maxJitterMsOf options) (maxDelayMsOf options) (random env 2)"
  shows "1000 \<le> delay1 \<and> delay1 \<le> 1000 + maxJitterMsOf options
       \<and> 2000 \<le> delay2 \<and> delay2 \<le> 2000 + maxJitterMsOf options
       \<and> (\<forall>st err w d.
            1 < maxAttemptsOf options \<and> fn (world st) = (Inl err, w, d)
            \<and> shouldRetryOf options err 1 \<longrightarrow>
               withRetry options env fn st =
                 retryLoop options env fn (clock st) 2 err
                   (sleep env 1 delay1
                      (st\<lparr>world := w, calls := Suc (calls st), clock := clock st + int d,
                          retryHooks := retryHooks st @ [OnRetry err 1 delay1 (int d)]\<rparr>)))
       \<and> (\<forall>st err w d startTime lastError.
            2 < maxAttemptsOf options \<and> fn (world st) = (Inl err, w, d)
            \<and> shouldRetryOf options err 2 \<longrightarrow>
               retryLoop options env fn startTime 2 lastError st =
                 retryLoop options env fn startTime 3 err
                   (sleep env 2 delay2
                      (st\<lparr>world := w, calls := Suc (calls st), clock := clock st + int d,
                          retryHooks := retryHooks st
                            @ [OnRetry err 2 delay2 (clock st + int d - startTime)]\<rparr>)))
       \<and> (\<forall>(st :: 'w RetryState) k ms.
            ms \<le> 2147483647 \<longrightarrow> clock st + ms \<le> clock (sleep env k ms st))"
proof -
  have r: "0 \<le> random env k" "random env k < 1" for k using assms(5) by auto
  have b1: "1000 \<le> delay1 \<and> delay1 \<le> 1000 + maxJitterMsOf options"
    using exponential_delay [OF assms(3) r, of 1000 1 "maxDelayMsOf options" 1] assms(1,2,4)
    unfolding assms(6) by simp
  have b2: "2000 \<le> delay2 \<and> delay2 \<le> 2000 + maxJitterMsOf options"
    using exponential_delay [OF assms(3) r, of 1000 2 "maxDelayMsOf options" 2] assms(1,2,4)
    unfolding assms(7) by simp
  have s1: "withRetry options env fn st =
                 retryLoop options env fn (clock st) 2 err
                   (sleep env 1 delay1
                      (st\<lparr>world := w, calls := Suc (calls st), clock := clock st + int d,
                          retryHooks := retryHooks st @ [OnRetry err 1 delay1 (int d)]\<rparr>))"
    if "1 < maxAttemptsOf options \<and> fn (world st) = (Inl err, w, d) \<and> shouldRetryOf options err 1"
    for st :: "'w RetryState" and err w d
    unfolding withRetry_def assms(6)
    using retryLoop_retry [of 1 options fn st err w d env "clock st" "Plain JsUndefined"] that
    by simp
  have s2: "retryLoop options env fn startTime 2 lastError st =
                 retryLoop options env fn startTime 3 err
                   (sleep env 2 delay2
                      (st\<lparr>world := w, calls := Suc (calls st), clock := clock st + int d,
                          retryHooks := retryHooks st
                            @ [OnRetry err 2 delay2 (clock st + int d - startTime)]\<rparr>))"
    if "2 < maxAttemptsOf options \<and> fn (world st) = (Inl err, w, d) \<and> shouldRetryOf options err 2"
    for st :: "'w RetryState" and err w d startTime lastError
    unfolding assms(7)
    using retryLoop_retry [of 2 options fn st err w d env startTime lastError] that
    by simp
  have s3: "clock st + ms \<le> clock (sleep env k ms st)" if "ms \<le> 2147483647"
    for st :: "'w RetryState" and k ms
    using that by (rule sleep_at_least)
  show ?thesis
    using b1 b2 s1 s2 s3 by blast
qed

text \<open>
  C5, amended, on inputs: the options of the counterexample and a function that always
  times out; the delay waited before attempt 2 is between 1000 and 1100 ms.
\<close>

theorem exponential_delay_before_attempts_witness:
  "1000 \<le> calculateDelay 1 1000 Exponential 100 30000 (random midJitterEnv 1)
   \<and> calculateDelay 1 1000 Exponential 100 30000 (random midJitterEnv 1) \<le> 1100
   \<and> 2000 \<le> calculateDelay 2 1000 Exponential 100 30000 (random midJitterEnv 2)
   \<and> calculateDelay 2 1000 Exponential 100 30000 (random midJitterEnv 2) \<le> 2100
   \<and> withRetry \<lparr>maxAttempts = Some 3, delayMs = Some 1000, backoff = Some Exponential,
                 maxJitterMs = None, maxDelayMs = None, shouldRetry = None\<rparr>
       midJitterEnv (rejectsWith (Typed (newTimeoutError 5000))) freshRetryState
     = retryLoop \<lparr>maxAttempts = Some 3, delayMs = Some 1000, backoff = Some Exponential,
                 maxJitterMs = None, maxDelayMs = None, shouldRetry = None\<rparr>
         midJitterEnv (rejectsWith (Typed (newTimeoutError 5000))) 0 2 (Typed (newTimeoutError 5000))
         (sleep midJitterEnv 1 (calculateDelay 1 1000 Exponential 100 30000 (random midJitterEnv 1))
            \<lparr>world = 1, calls = 1, clock = 0,
             retryHooks = [OnRetry (Typed (newTimeoutError 5000)) 1
                             (calculateDelay 1 1000 Exponential 100 30000 (random midJitterEnv 1)) 0]\<rparr>)"
proof -
  let ?options = "\<lparr>maxAttempts = Some 3, delayMs = Some 1000, backoff = Some Exponential,
                 maxJitterMs = None, maxDelayMs = None, shouldRetry = None\<rparr>"
  have h1: "backoffOf ?options = Exponential" by (simp add: backoffOf_def)
  have h2: "delayMsOf ?options = 1000" by (simp add: delayMsOf_def)
  have h3: "0 \<le> maxJitterMsOf ?options" by (simp add: maxJitterMsOf_def)
  have h4: "2000 + maxJitterMsOf ?options \<le> maxDelayMsOf ?options"
    by (simp add: maxJitterMsOf_def maxDelayMsOf_def)
  have h5: "\<forall>k. 0 \<le> random midJitterEnv k \<and> random midJitterEnv k < 1"
    by (simp add: midJitterEnv_def)
  have h6: "calculateDelay 1 1000 Exponential 100 30000 (random midJitterEnv 1)
              = calculateDelay 1 (delayMsOf ?options) (backoffOf ?options)
                  (maxJitterMsOf ?options) (maxDelayMsOf ?options) (random midJitterEnv 1)"
    by (simp add: delayMsOf_def backoffOf_def maxJitterMsOf_def maxDelayMsOf_def)
  have h7: "calculateDelay 2 1000 Exponential 100 30000 (random midJitterEnv 2)
              = calculateDelay 2 (delayMsOf ?options) (backoffOf ?options)
                  (maxJitterMsOf ?options) (maxDelayMsOf ?options) (random midJitterEnv 2)"
    by (simp add: delayMsOf_def backoffOf_def maxJitterMsOf_def maxDelayMsOf_def)
  have pre: "1 < maxAttemptsOf ?options
      \<and> rejectsWith (Typed (newTimeoutError 5000)) (world freshRetryState)
          = (Inl (Typed (newTimeoutError 5000)), 1, 0)
      \<and> shouldRetryOf ?options (Typed (newTimeoutError 5000)) 1"
    by (simp add: maxAttemptsOf_def rejectsWith_def freshRetryState_def shouldRetryOf_def
          defaultShouldRetry_def newTimeoutError_def)
  note t = exponential_delay_before_attempts
             [OF h1 h2 h3 h4 h5 h6 h7, where fn = "rejectsWith (Typed (newTimeoutError 5000))"]
  have bounds: "1000 \<le> calculateDelay 1 1000 Exponential 100 30000 (random midJitterEnv 1)
      \<and> calculateDelay 1 1000 Exponential 100 30000 (random midJitterEnv 1) \<le> 1100
      \<and> 2000 \<le> calculateDelay 2 1000 Exponential 100 30000 (random midJitterEnv 2)
      \<and> calculateDelay 2 1000 Exponential 100 30000 (random midJitterEnv 2) \<le> 2100"
    using t by (simp add: maxJitterMsOf_def)
  have step: "withRetry ?options midJitterEnv (rejectsWith (Typed (newTimeoutError 5000))) freshRetryState =
                 retryLoop ?options midJitterEnv (rejectsWith (Typed (newTimeoutError 5000)))
                   (clock freshRetryState) 2 (Typed (newTimeoutError 5000))
                   (sleep midJitterEnv 1 (calculateDelay 1 1000 Exponential 100 30000 (random midJitterEnv 1))
                      (freshRetryState\<lparr>world := 1, calls := Suc (calls freshRetryState),
                          clock := clock freshRetryState + int 0,
                          retryHooks := retryHooks freshRetryState
                            @ [OnRetry (Typed (newTimeoutError 5000)) 1
                                 (calculateDelay 1 1000 Exponential 100 30000 (random midJitterEnv 1))
                                 (int 0)]\<rparr>))"
    using t [THEN conjunct2, THEN conjunct2, THEN conjunct2, THEN conjunct2, THEN conjunct1,
             rule_format, OF pre] .
  show ?thesis
    using bounds step by (simp add: freshRetryState_def)
qed

section \<open>Properties of the circuit breaker\<close>

lemma storage_set_fields [simp]:
  "storage (storage_set name d st) = (storage st)(name \<mapsto> d)"
  "world (storage_set name d st) = world st"
  "calls (storage_set name d st) = calls st"
  "breakerHooks (storage_set name d st) = breakerHooks st"
  by (simp_all add: storage_set_def)

lemma emit_fields [simp]:
  "storage (emit ev st) = storage st"
  "world (emit ev st) = world st"
  "calls (emit ev st) = calls st"
  "breakerHooks (emit ev st) = breakerHooks st @ [ev]"
  by (simp_all add: emit_def)

lemma circuitOf_storage: "circuitOf st name = (case storage st name of Some c \<Rightarrow> c | None \<Rightarrow> DEFAULT_CIRCUIT)"
  by (simp add: circuitOf_def storage_get_def)

lemma handleFailure_fields:
  "storage (handleFailure name options now err c st) name =
     Some (if failures c + 1 \<ge> failureThresholdOf options
           then c\<lparr>failures := failures c + 1, lastFailure := now, state := Open\<rparr>
           else c\<lparr>failures := failures c + 1, lastFailure := now\<rparr>)"
  "world (handleFailure name options now err c st) = world st"
  "calls (handleFailure name options now err c st) = calls st"
  by (simp_all add: handleFailure_def Let_def)

lemma handleSuccess_fields:
  "storage (handleSuccess name options c st) name =
     Some (if state c = HalfOpen then
             (if successes c + 1 \<ge> successThresholdOf options
              then c\<lparr>successes := successes c + 1, state := Closed, failures := 0\<rparr>
              else c\<lparr>successes := successes c + 1\<rparr>)
           else c\<lparr>failures := 0\<rparr>)"
  "world (handleSuccess name options c st) = world st"
  "calls (handleSuccess name options c st) = calls st"
  by (simp_all add: handleSuccess_def Let_def)

lemma checkOpen_not_open:
  "state c \<noteq> Open \<Longrightarrow> checkOpen name options now c st = Inr (c, st)"
  by (simp add: checkOpen_def Let_def)

lemma checkOpen_half_open:
  "state c = Open \<Longrightarrow> lastFailure c + resetTimeoutOf options \<le> now \<Longrightarrow>
     checkOpen name options now c st =
       Inr (c\<lparr>state := HalfOpen, successes := 0\<rparr>,
            emit (OnStateChange name Open HalfOpen (failures c))
              (storage_set name (c\<lparr>state := HalfOpen, successes := 0\<rparr>) st))"
  by (simp add: checkOpen_def Let_def)

lemma checkOpen_fail_fast:
  "state c = Open \<Longrightarrow> now < lastFailure c + resetTimeoutOf options \<Longrightarrow>
     Date_valid (lastFailure c + resetTimeoutOf options) \<Longrightarrow>
     \<exists>m. checkOpen name options now c st =
       Inl (Typed (BaseError (CircuitOpenError name (lastFailure c + resetTimeoutOf options)) m None))"
  by (simp add: checkOpen_def Let_def newCircuitOpenError_def Date_toISOString_def split: prod.splits)

lemma checkOpen_range_error:
  "state c = Open \<Longrightarrow> now < lastFailure c + resetTimeoutOf options \<Longrightarrow>
     \<not> Date_valid (lastFailure c + resetTimeoutOf options) \<Longrightarrow>
     checkOpen name options now c st = Inl RangeError_invalid_time"
  by (simp add: checkOpen_def Let_def newCircuitOpenError_def Date_toISOString_def)

lemma withCircuitBreaker_thrown:
  "checkOpen name options now (circuitOf st name) st = Inl thrown \<Longrightarrow>
     withCircuitBreaker name options fn now st = (Inl thrown, st)"
  by (simp add: withCircuitBreaker_def circuitOf_def)

lemma withCircuitBreaker_failure:
  "checkOpen name options now (circuitOf st name) st = Inr (c1, st1) \<Longrightarrow>
   fn (world st1) = (Inl err, w) \<Longrightarrow>
     withCircuitBreaker name options fn now st =
       (Inl err, handleFailure name options now err c1 (st1\<lparr>world := w, calls := Suc (calls st1)\<rparr>))"
  by (simp add: withCircuitBreaker_def circuitOf_def)

lemma withCircuitBreaker_success:
  "checkOpen name options now (circuitOf st name) st = Inr (c1, st1) \<Longrightarrow>
   fn (world st1) = (Inr result, w) \<Longrightarrow>
     withCircuitBreaker name options fn now st =
       (Inr result, handleSuccess name options c1 (st1\<lparr>world := w, calls := Suc (calls st1)\<rparr>))"
  by (simp add: withCircuitBreaker_def circuitOf_def)

text \<open>A failing call made on a circuit that is not open.\<close>

lemma failing_call_not_open:
  assumes "state (circuitOf st name) \<noteq> Open" and "isl (fst (fn (world st)))"
  shows "circuitOf (snd (withCircuitBreaker name options fn now st)) name =
           (let c = circuitOf st name in
            if failures c + 1 \<ge> failureThresholdOf options
            then c\<lparr>failures := failures c + 1, lastFailure := now, state := Open\<rparr>
            else c\<lparr>failures := failures c + 1, lastFailure := now\<rparr>)"
proof -
  obtain err w where f: "fn (world st) = (Inl err, w)"
    using assms(2) by (cases "fn (world st)") (auto simp: isl_def)
  have "checkOpen name options now (circuitOf st name) st = Inr (circuitOf st name, st)"
    using assms(1) by (rule checkOpen_not_open)
  then have "withCircuitBreaker name options fn now st =
       (Inl err, handleFailure name options now err (circuitOf st name)
                   (st\<lparr>world := w, calls := Suc (calls st)\<rparr>))"
    using f by (rule withCircuitBreaker_failure)
  then show ?thesis
    by (simp add: circuitOf_storage [of "handleFailure _ _ _ _ _ _"] handleFailure_fields Let_def)
qed

lemma runCalls_append:
  "runCalls name options (cs @ ds) st = runCalls name options ds (runCalls name options cs st)"
  by (induction cs arbitrary: st) auto

lemma closed_failures_accumulate:
  assumes "state (circuitOf st name) = Closed"
      and "\<forall>(now, fn) \<in> set cs. alwaysFails fn"
      and "failures (circuitOf st name) + int (length cs) < failureThresholdOf options"
  shows "state (circuitOf (runCalls name options cs st) name) = Closed
         \<and> failures (circuitOf (runCalls name options cs st) name)
             = failures (circuitOf st name) + int (length cs)"
  using assms
proof (induction cs arbitrary: st)
  case Nil
  then show ?case by simp
next
  case (Cons a cs)
  obtain now fn where a: "a = (now, fn)" by (cases a)
  let ?st = "snd (withCircuitBreaker name options fn now st)"
  have fl: "isl (fst (fn (world st)))" using Cons.prems(2) by (simp add: a alwaysFails_def)
  have no: "state (circuitOf st name) \<noteq> Open" using Cons.prems(1) by simp
  have c: "circuitOf ?st name = (circuitOf st name)\<lparr>failures := failures (circuitOf st name) + 1, lastFailure := now\<rparr>"
    using failing_call_not_open [of st name fn options now] no fl Cons.prems(3) by (simp add: Let_def)
  have "state (circuitOf (runCalls name options cs ?st) name) = Closed
         \<and> failures (circuitOf (runCalls name options cs ?st) name)
             = failures (circuitOf ?st name) + int (length cs)"
    using Cons.prems by (intro Cons.IH) (simp_all add: c)
  then show ?case by (simp add: a c)
qed


lemma checkOpen_cases:
  "checkOpen name options now c st =
     (if state c = Open then
        (if lastFailure c + resetTimeoutOf options \<le> now then
           Inr (c\<lparr>state := HalfOpen, successes := 0\<rparr>,
                emit (OnStateChange name Open HalfOpen (failures c))
                  (storage_set name (c\<lparr>state := HalfOpen, successes := 0\<rparr>) st))
         else (case newCircuitOpenError name (lastFailure c + resetTimeoutOf options) of
                 Inl thrown \<Rightarrow> Inl thrown | Inr e \<Rightarrow> Inl (Typed e)))
      else Inr (c, st))"
  by (simp add: checkOpen_def Let_def)

lemma checkOpen_Inr_fields:
  assumes "checkOpen name options now c st = Inr (c1, st1)"
  shows "world st1 = world st" and "calls st1 = calls st"
    and "c1 = (if state c = Open then c\<lparr>state := HalfOpen, successes := 0\<rparr> else c)"
    and "state c = Open \<longrightarrow> lastFailure c + resetTimeoutOf options \<le> now"
  using assms by (auto simp: checkOpen_cases split: if_splits sum.splits)

lemma checkOpen_Inl_iff:
  "(\<exists>thrown. checkOpen name options now c st = Inl thrown)
     \<longleftrightarrow> state c = Open \<and> now < lastFailure c + resetTimeoutOf options"
  by (auto simp: checkOpen_cases split: sum.splits)

text \<open>The circuit a call leaves behind, as a function of the circuit it found.\<close>

lemma call_effect:
  fixes st :: "'w BreakerState" and fn :: "'w \<Rightarrow> (unknown + 'r) \<times> 'w"
  shows "circuitOf (snd (withCircuitBreaker name options fn now st)) name =
     (let c = circuitOf st name in
      if state c = Open \<and> now < lastFailure c + resetTimeoutOf options then c
      else
        let c1 = (if state c = Open then c\<lparr>state := HalfOpen, successes := 0\<rparr> else c) in
        if isl (fst (fn (world st))) then
          (if failures c1 + 1 \<ge> failureThresholdOf options
           then c1\<lparr>failures := failures c1 + 1, lastFailure := now, state := Open\<rparr>
           else c1\<lparr>failures := failures c1 + 1, lastFailure := now\<rparr>)
        else
          (if state c1 = HalfOpen then
             (if successes c1 + 1 \<ge> successThresholdOf options
              then c1\<lparr>successes := successes c1 + 1, state := Closed, failures := 0\<rparr>
              else c1\<lparr>successes := successes c1 + 1\<rparr>)
           else c1\<lparr>failures := 0\<rparr>))"
proof (cases "checkOpen name options now (circuitOf st name) st")
  case (Inl thrown)
  then have "state (circuitOf st name) = Open \<and> now < lastFailure (circuitOf st name) + resetTimeoutOf options"
    using checkOpen_Inl_iff [of name options now "circuitOf st name" st] by blast
  then show ?thesis
    using withCircuitBreaker_thrown [of name options now st thrown fn] Inl by (simp add: Let_def)
next
  case (Inr p)
  obtain c1 st1 where p: "p = (c1, st1)" by (cases p)
  note chk = Inr [unfolded p]
  note f = checkOpen_Inr_fields [OF chk]
  have notfast: "\<not> (state (circuitOf st name) = Open \<and> now < lastFailure (circuitOf st name) + resetTimeoutOf options)"
    using f(4) by auto
  obtain out w where o: "fn (world st) = (out, w)" by (cases "fn (world st)")
  show ?thesis
  proof (cases out)
    case (Inl err)
    have "withCircuitBreaker name options fn now st =
       (Inl err, handleFailure name options now err c1 (st1\<lparr>world := w, calls := Suc (calls st1)\<rparr>))"
      using chk by (rule withCircuitBreaker_failure) (simp add: f(1) o Inl)
    then show ?thesis
      using notfast f(3)
      by (auto simp: circuitOf_storage [of "handleFailure _ _ _ _ _ _"] handleFailure_fields Let_def o Inl)
  next
    case (Inr result)
    have "withCircuitBreaker name options fn now st =
       (Inr result, handleSuccess name options c1 (st1\<lparr>world := w, calls := Suc (calls st1)\<rparr>))"
      using chk by (rule withCircuitBreaker_success) (simp add: f(1) o Inr)
    then show ?thesis
      using notfast f(3)
      by (auto simp: circuitOf_storage [of "handleSuccess _ _ _ _"] handleSuccess_fields Let_def o Inr)
  qed
qed

text \<open>A circuit that is not closed has reached the failure threshold.\<close>

lemma tripped_preserved:
  fixes st :: "'w BreakerState" and fn :: "'w \<Rightarrow> (unknown + 'r) \<times> 'w"
  assumes "state (circuitOf st name) \<noteq> Closed \<longrightarrow> failureThresholdOf options \<le> failures (circuitOf st name)"
  shows "state (circuitOf (snd (withCircuitBreaker name options fn now st)) name) \<noteq> Closed
           \<longrightarrow> failureThresholdOf options
                \<le> failures (circuitOf (snd (withCircuitBreaker name options fn now st)) name)"
  using assms unfolding call_effect [of name options fn now st] Let_def
  by (cases "state (circuitOf st name)") (auto split: if_splits)

lemma tripped_runCalls:
  fixes st :: "'w BreakerState" and cs :: "(int \<times> ('w \<Rightarrow> (unknown + 'r) \<times> 'w)) list"
  assumes "state (circuitOf st name) \<noteq> Closed \<longrightarrow> failureThresholdOf options \<le> failures (circuitOf st name)"
  shows "state (circuitOf (runCalls name options cs st) name) \<noteq> Closed
           \<longrightarrow> failureThresholdOf options \<le> failures (circuitOf (runCalls name options cs st) name)"
  using assms
proof (induction cs arbitrary: st)
  case Nil
  then show ?case by simp
next
  case (Cons a cs)
  obtain now fn where a: "a = (now, fn)" by (cases a)
  show ?case
    unfolding a runCalls.simps
    by (rule Cons.IH) (rule tripped_preserved [OF Cons.prems])
qed

lemma runCalls_snoc:
  "runCalls name options (cs @ [(now, fn)]) st
     = snd (withCircuitBreaker name options fn now (runCalls name options cs st))"
  by (simp add: runCalls_append)

lemma threshold_failures_open:
  fixes st :: "'w BreakerState" and cs :: "(int \<times> ('w \<Rightarrow> (unknown + 'r) \<times> 'w)) list"
  assumes "state (circuitOf st name) = Closed" and "failures (circuitOf st name) = 0"
      and "cs \<noteq> []" and "int (length cs) = failureThresholdOf options"
      and "\<forall>(now, fn) \<in> set cs. alwaysFails fn"
  shows "circuitOf (runCalls name options cs st) name =
           (circuitOf (runCalls name options (butlast cs) st) name)
             \<lparr>failures := failureThresholdOf options, lastFailure := fst (last cs), state := Open\<rparr>"
proof -
  obtain now fn where l: "last cs = (now, fn)" by (cases "last cs")
  have cs: "cs = butlast cs @ [(now, fn)]" using assms(3) l by (metis append_butlast_last_id)
  let ?st = "runCalls name options (butlast cs) st"
  have len: "int (length (butlast cs)) = failureThresholdOf options - 1"
    using assms(3,4) by (cases cs) auto
  have all: "\<forall>(now, fn) \<in> set (butlast cs). alwaysFails fn"
    using assms(5) by (auto dest: in_set_butlastD)
  have pre: "state (circuitOf ?st name) = Closed
         \<and> failures (circuitOf ?st name) = failures (circuitOf st name) + int (length (butlast cs))"
    using assms(1) all by (rule closed_failures_accumulate) (use len assms(2) in simp)
  have f1: "failures (circuitOf ?st name) = failureThresholdOf options - 1"
    using pre len assms(2) by simp
  have fl: "isl (fst (fn (world ?st)))"
    using assms(5) cs by (metis (mono_tags, lifting) alwaysFails_def case_prodD in_set_conv_decomp)
  have "circuitOf (snd (withCircuitBreaker name options fn now ?st)) name =
          (circuitOf ?st name)\<lparr>failures := failureThresholdOf options, lastFailure := now, state := Open\<rparr>"
    using failing_call_not_open [of ?st name fn options now] pre [THEN conjunct1] fl
    by (simp add: Let_def f1)
  then show ?thesis
    using runCalls_snoc [of name options "butlast cs" now fn st] cs l by simp
qed

lemmas breaker_eval =
  withCircuitBreaker_def checkOpen_def handleFailure_def handleSuccess_def storage_get_def
  storage_set_def emit_def circuitOf_def DEFAULT_CIRCUIT_def Let_def failureThresholdOf_def
  resetTimeoutOf_def successThresholdOf_def failingCall_def succeedingCall_def
  freshBreakerState_def

text \<open>
  Claim C2 at a failing input. With \<open>failureThreshold = 1\<close> and a \<open>resetTimeout\<close> of
  9007199254740991 ms (the largest safe integer: a circuit meant never to reset by itself),
  one failing call at time 1700000000001 leaves the stored state open. The next call, one
  second later and long before the deadline, does not invoke the wrapped function and
  leaves the state as it is, but what it throws is not a \<open>CircuitOpenError\<close>: the reset
  time is beyond the range of dates, the constructor of \<open>CircuitOpenError\<close> fails while it
  formats the reset time for its message, and the caller receives the \<open>RangeError\<close> of
  \<open>toISOString\<close>.
\<close>

theorem fail_fast_throws_RangeError_beyond_date_range:
  "state (circuitOf
            (runCalls ''api''
               \<lparr>failureThreshold = Some 1, resetTimeout = Some 9007199254740991, successThreshold = None\<rparr>
               [(1700000000001, failingCall)] freshBreakerState) ''api'') = Open
   \<and> lastFailure (circuitOf
            (runCalls ''api''
               \<lparr>failureThreshold = Some 1, resetTimeout = Some 9007199254740991, successThreshold = None\<rparr>
               [(1700000000001, failingCall)] freshBreakerState) ''api'') = 1700000000001
   \<and> 1700000001001 < 1700000000001
        + resetTimeoutOf \<lparr>failureThreshold = Some 1, resetTimeout = Some 9007199254740991, successThreshold = None\<rparr>
   \<and> withCircuitBreaker ''api''
        \<lparr>failureThreshold = Some 1, resetTimeout = Some 9007199254740991, successThreshold = None\<rparr>
        succeedingCall 1700000001001
        (runCalls ''api''
           \<lparr>failureThreshold = Some 1, resetTimeout = Some 9007199254740991, successThreshold = None\<rparr>
           [(1700000000001, failingCall)] freshBreakerState)
      = (Inl (NativeError ''RangeError'' ''Invalid time value'' None),
         runCalls ''api''
           \<lparr>failureThreshold = Some 1, resetTimeout = Some 9007199254740991, successThreshold = None\<rparr>
           [(1700000000001, failingCall)] freshBreakerState)
   \<and> (\<forall>e. NativeError ''RangeError'' ''Invalid time value'' None \<noteq> Typed e)"
  by (simp add: breaker_eval newCircuitOpenError_def Date_toISOString_def Date_valid_def
        RangeError_invalid_time_def)

text \<open>
  What holds of claim C2 on the code. Starting from a circuit that is closed with no
  failure counted, \<open>failureThreshold\<close> consecutive failing calls (at least one) leave the
  stored state open, with the time of the last of them as the failure time. From then on
  every call made before \<open>lastFailure + resetTimeout\<close> throws a \<open>CircuitOpenError\<close> that
  carries the circuit name and that reset time, without invoking the wrapped function and
  without changing anything, provided the reset time is a valid date; and a call at or
  after the deadline sets the circuit half-open, stores it, and invokes the wrapped function
  once, returning what it returns.
\<close>

theorem circuit_opens_fails_fast_half_opens:
  fixes st :: "'w BreakerState" and cs :: "(int \<times> ('w \<Rightarrow> (unknown + 'r) \<times> 'w)) list"
  assumes "state (circuitOf st name) = Closed" and "failures (circuitOf st name) = 0"
      and "cs \<noteq> []" and "int (length cs) = failureThresholdOf options"
      and "\<forall>(now, fn) \<in> set cs. alwaysFails fn"
      and "st' = runCalls name options cs st"
      and "resetAt = fst (last cs) + resetTimeoutOf options"
  shows "state (circuitOf st' name) = Open
       \<and> lastFailure (circuitOf st' name) = fst (last cs)
       \<and> (\<forall>now (fn :: 'w \<Rightarrow> (unknown + 'r) \<times> 'w).
            now < resetAt \<and> Date_valid resetAt \<longrightarrow>
              (\<exists>m. withCircuitBreaker name options fn now st'
                     = (Inl (Typed (BaseError (CircuitOpenError name resetAt) m None)), st')))
       \<and> (\<forall>now (fn :: 'w \<Rightarrow> (unknown + 'r) \<times> 'w).
            resetAt \<le> now \<longrightarrow>
              (\<exists>c1 st1. checkOpen name options now (circuitOf st' name) st' = Inr (c1, st1)
                         \<and> state c1 = HalfOpen \<and> state (circuitOf st1 name) = HalfOpen)
              \<and> fst (withCircuitBreaker name options fn now st') = fst (fn (world st'))
              \<and> world (snd (withCircuitBreaker name options fn now st')) = snd (fn (world st'))
              \<and> calls (snd (withCircuitBreaker name options fn now st')) = Suc (calls st'))"
proof -
  have c: "circuitOf st' name =
           (circuitOf (runCalls name options (butlast cs) st) name)
             \<lparr>failures := failureThresholdOf options, lastFailure := fst (last cs), state := Open\<rparr>"
    unfolding assms(6) using assms(1-5) by (rule threshold_failures_open)
  have op: "state (circuitOf st' name) = Open" and lf: "lastFailure (circuitOf st' name) = fst (last cs)"
    by (simp_all add: c)
  have fast: "\<exists>m. withCircuitBreaker name options fn now st'
                     = (Inl (Typed (BaseError (CircuitOpenError name resetAt) m None)), st')"
    if h: "now < resetAt \<and> Date_valid resetAt" for now and fn :: "'w \<Rightarrow> (unknown + 'r) \<times> 'w"
  proof -
    obtain m where "checkOpen name options now (circuitOf st' name) st' =
       Inl (Typed (BaseError (CircuitOpenError name resetAt) m None))"
      using checkOpen_fail_fast [of "circuitOf st' name" now options name st'] op lf
        h [THEN conjunct1] h [THEN conjunct2] assms(7)
      by auto
    then show ?thesis
      using withCircuitBreaker_thrown [of name options now st' _ fn] by auto
  qed
  have half: "(\<exists>c1 st1. checkOpen name options now (circuitOf st' name) st' = Inr (c1, st1)
                         \<and> state c1 = HalfOpen \<and> state (circuitOf st1 name) = HalfOpen)
              \<and> fst (withCircuitBreaker name options fn now st') = fst (fn (world st'))
              \<and> world (snd (withCircuitBreaker name options fn now st')) = snd (fn (world st'))
              \<and> calls (snd (withCircuitBreaker name options fn now st')) = Suc (calls st')"
    if "resetAt \<le> now" for now and fn :: "'w \<Rightarrow> (unknown + 'r) \<times> 'w"
  proof -
    let ?c1 = "(circuitOf st' name)\<lparr>state := HalfOpen, successes := 0\<rparr>"
    let ?st1 = "emit (OnStateChange name Open HalfOpen (failures (circuitOf st' name)))
              (storage_set name ?c1 st')"
    have chk: "checkOpen name options now (circuitOf st' name) st' = Inr (?c1, ?st1)"
      using op lf that assms(7) by (intro checkOpen_half_open) simp_all
    have s1: "state (circuitOf ?st1 name) = HalfOpen" by (simp add: circuitOf_storage)
    obtain out w where o: "fn (world st') = (out, w)" by (cases "fn (world st')")
    have w1: "world ?st1 = world st'" by simp
    have r: "fst (withCircuitBreaker name options fn now st') = out
           \<and> world (snd (withCircuitBreaker name options fn now st')) = w
           \<and> calls (snd (withCircuitBreaker name options fn now st')) = Suc (calls st')"
    proof (cases out)
      case (Inl err)
      have "withCircuitBreaker name options fn now st' =
         (Inl err, handleFailure name options now err ?c1 (?st1\<lparr>world := w, calls := Suc (calls ?st1)\<rparr>))"
        using chk by (rule withCircuitBreaker_failure) (simp add: o Inl)
      then show ?thesis by (simp add: handleFailure_fields Inl)
    next
      case (Inr result)
      have "withCircuitBreaker name options fn now st' =
         (Inr result, handleSuccess name options ?c1 (?st1\<lparr>world := w, calls := Suc (calls ?st1)\<rparr>))"
        using chk by (rule withCircuitBreaker_success) (simp add: o Inr)
      then show ?thesis by (simp add: handleSuccess_fields Inr)
    qed
    show ?thesis using chk s1 r o by auto
  qed
  show ?thesis using op lf fast half by blast
qed

text \<open>
  An instance: threshold 1, reset timeout 30 s, one failing call at time 1700000000000. A
  call one second later throws the \<open>CircuitOpenError\<close> for the reset time 1700000030000; a
  call at that time invokes the wrapped function, which counts its second invocation.
\<close>

lemma circuit_opens_fails_fast_half_opens_instance:
  "(\<exists>m. withCircuitBreaker ''api''
          \<lparr>failureThreshold = Some 1, resetTimeout = Some 30000, successThreshold = None\<rparr>
          succeedingCall 1700000001000
          (runCalls ''api''
             \<lparr>failureThreshold = Some 1, resetTimeout = Some 30000, successThreshold = None\<rparr>
             [(1700000000000, failingCall)] freshBreakerState)
        = (Inl (Typed (BaseError (CircuitOpenError ''api'' 1700000030000) m None)),
           runCalls ''api''
             \<lparr>failureThreshold = Some 1, resetTimeout = Some 30000, successThreshold = None\<rparr>
             [(1700000000000, failingCall)] freshBreakerState))
   \<and> world (snd (withCircuitBreaker ''api''
          \<lparr>failureThreshold = Some 1, resetTimeout = Some 30000, successThreshold = None\<rparr>
          succeedingCall 1700000030000
          (runCalls ''api''
             \<lparr>failureThreshold = Some 1, resetTimeout = Some 30000, successThreshold = None\<rparr>
             [(1700000000000, failingCall)] freshBreakerState))) = 2"
proof -
  let ?options = "\<lparr>failureThreshold = Some 1, resetTimeout = Some 30000, successThreshold = None\<rparr>"
  let ?cs = "[(1700000000000, failingCall)]"
  have h1: "state (circuitOf freshBreakerState ''api'') = Closed"
    and h2: "failures (circuitOf freshBreakerState ''api'') = 0"
    by (simp_all add: circuitOf_def storage_get_def freshBreakerState_def DEFAULT_CIRCUIT_def)
  have h3: "?cs \<noteq> []" by simp
  have h4: "int (length ?cs) = failureThresholdOf ?options" by (simp add: failureThresholdOf_def)
  have h5: "\<forall>(now, fn) \<in> set ?cs. alwaysFails fn"
    by (simp add: alwaysFails_def failingCall_def)
  have h7: "1700000030000 = fst (last ?cs) + resetTimeoutOf ?options"
    by (simp add: resetTimeoutOf_def)
  note t = circuit_opens_fails_fast_half_opens [OF h1 h2 h3 h4 h5 refl h7]
  have v: "1700000001000 < (1700000030000 :: int) \<and> Date_valid 1700000030000"
    by (simp add: Date_valid_def)
  have w: "world (runCalls ''api'' ?options ?cs freshBreakerState) = 1"
    by (simp add: breaker_eval)
  show ?thesis
    using t [THEN conjunct2, THEN conjunct2, THEN conjunct1, rule_format, OF v,
             where fn = succeedingCall]
          t [THEN conjunct2, THEN conjunct2, THEN conjunct2, rule_format,
             where now = 1700000030000 and fn = succeedingCall]
          w
    by (simp add: succeedingCall_def)
qed

text \<open>
  Claim C3, as stated, fails. A circuit opened by two failures (threshold 2) and probed
  after its deadline by one successful call is half-open with one success counted. A
  failing call then reopens it, counts the failure and records its time, but resets no
  counter: the success count is still 1 and the failure count is 3.
\<close>

theorem half_open_failure_resets_no_counter_counterexample:
  "circuitOf
     (runCalls ''api'' \<lparr>failureThreshold = Some 2, resetTimeout = Some 100, successThreshold = Some 2\<rparr>
        [(1000, failingCall), (1001, failingCall), (1101, succeedingCall)] freshBreakerState) ''api''
     = \<lparr>state = HalfOpen, failures = 2, successes = 1, lastFailure = 1001\<rparr>
   \<and> circuitOf
     (runCalls ''api'' \<lparr>failureThreshold = Some 2, resetTimeout = Some 100, successThreshold = Some 2\<rparr>
        [(1000, failingCall), (1001, failingCall), (1101, succeedingCall), (1102, failingCall)]
        freshBreakerState) ''api''
     = \<lparr>state = Open, failures = 3, successes = 1, lastFailure = 1102\<rparr>
   \<and> \<not> (successes (circuitOf
     (runCalls ''api'' \<lparr>failureThreshold = Some 2, resetTimeout = Some 100, successThreshold = Some 2\<rparr>
        [(1000, failingCall), (1001, failingCall), (1101, succeedingCall), (1102, failingCall)]
        freshBreakerState) ''api'') = 0
      \<or> failures (circuitOf
     (runCalls ''api'' \<lparr>failureThreshold = Some 2, resetTimeout = Some 100, successThreshold = Some 2\<rparr>
        [(1000, failingCall), (1001, failingCall), (1101, succeedingCall), (1102, failingCall)]
        freshBreakerState) ''api'') = 0)"
proof -
  have a: "circuitOf
     (runCalls ''api'' \<lparr>failureThreshold = Some 2, resetTimeout = Some 100, successThreshold = Some 2\<rparr>
        [(1000, failingCall), (1001, failingCall), (1101, succeedingCall)] freshBreakerState) ''api''
     = \<lparr>state = HalfOpen, failures = 2, successes = 1, lastFailure = 1001\<rparr>"
    by (simp add: breaker_eval)
  have b: "circuitOf
     (runCalls ''api'' \<lparr>failureThreshold = Some 2, resetTimeout = Some 100, successThreshold = Some 2\<rparr>
        [(1000, failingCall), (1001, failingCall), (1101, succeedingCall), (1102, failingCall)]
        freshBreakerState) ''api''
     = \<lparr>state = Open, failures = 3, successes = 1, lastFailure = 1102\<rparr>"
    by (simp add: breaker_eval)
  show ?thesis
    unfolding a b by simp
qed

text \<open>
  Claim C3, amended. Take any history of calls made with the same name and options on a
  circuit that started closed, and a further call that goes on half-open: one that finds the
  stored state half-open, or one that finds it open after its deadline and sets it
  half-open. If the wrapped function succeeds, the success counter is incremented, and when
  it reaches \<open>successThreshold\<close> the state becomes closed and the failure counter is reset to
  0. If the wrapped function fails, the circuit is reopened at once, with the failure
  counter incremented and the failure time set to the time of the call; the success counter
  is left as it is. The success counter is reset to 0 when an open circuit is next set
  half-open.
\<close>

theorem half_open_counters:
  fixes initial :: "'w BreakerState" and cs :: "(int \<times> ('w \<Rightarrow> (unknown + 'r) \<times> 'w)) list"
  assumes "state (circuitOf initial name) = Closed"
      and "st = runCalls name options cs initial"
  shows "(\<forall>now (fn :: 'w \<Rightarrow> (unknown + 'r) \<times> 'w) c1 st1.
            checkOpen name options now (circuitOf st name) st = Inr (c1, st1) \<and> state c1 = HalfOpen \<longrightarrow>
              (\<not> isl (fst (fn (world st))) \<longrightarrow>
                 circuitOf (snd (withCircuitBreaker name options fn now st)) name =
                   (if successThresholdOf options \<le> successes c1 + 1
                    then c1\<lparr>successes := successes c1 + 1, state := Closed, failures := 0\<rparr>
                    else c1\<lparr>successes := successes c1 + 1\<rparr>))
              \<and> (isl (fst (fn (world st))) \<longrightarrow>
                 circuitOf (snd (withCircuitBreaker name options fn now st)) name =
                   c1\<lparr>failures := failures c1 + 1, lastFailure := now, state := Open\<rparr>))
       \<and> (\<forall>now (c :: CircuitData) (s :: 'w BreakerState).
            state c = Open \<and> lastFailure c + resetTimeoutOf options \<le> now \<longrightarrow>
              (\<exists>s1. checkOpen name options now c s
                      = Inr (c\<lparr>state := HalfOpen, successes := 0\<rparr>, s1)))"
proof (intro conjI allI impI)
  fix now and fn :: "'w \<Rightarrow> (unknown + 'r) \<times> 'w" and c1 st1
  assume a: "checkOpen name options now (circuitOf st name) st = Inr (c1, st1) \<and> state c1 = HalfOpen"
  note f = checkOpen_Inr_fields [OF a [THEN conjunct1]]
  have inv: "state (circuitOf st name) \<noteq> Closed \<longrightarrow> failureThresholdOf options \<le> failures (circuitOf st name)"
    unfolding assms(2) by (rule tripped_runCalls) (simp add: assms(1))
  have nc: "state (circuitOf st name) \<noteq> Closed" using a f(3) by (auto split: if_splits)
  have thr: "failureThresholdOf options \<le> failures c1" using inv nc f(3) by (auto split: if_splits)
  have notfast: "\<not> (state (circuitOf st name) = Open \<and> now < lastFailure (circuitOf st name) + resetTimeoutOf options)"
    using f(4) by auto
  {
    assume "\<not> isl (fst (fn (world st)))"
    then show "circuitOf (snd (withCircuitBreaker name options fn now st)) name =
                   (if successThresholdOf options \<le> successes c1 + 1
                    then c1\<lparr>successes := successes c1 + 1, state := Closed, failures := 0\<rparr>
                    else c1\<lparr>successes := successes c1 + 1\<rparr>)"
      using a notfast f(3) unfolding call_effect [of name options fn now st] Let_def by auto
  }
  {
    assume "isl (fst (fn (world st)))"
    then show "circuitOf (snd (withCircuitBreaker name options fn now st)) name =
                   c1\<lparr>failures := failures c1 + 1, lastFailure := now, state := Open\<rparr>"
      using a notfast f(3) thr unfolding call_effect [of name options fn now st] Let_def by auto
  }
next
  fix now and c :: CircuitData and s :: "'w BreakerState"
  assume "state c = Open \<and> lastFailure c + resetTimeoutOf options \<le> now"
  then show "\<exists>s1. checkOpen name options now c s = Inr (c\<lparr>state := HalfOpen, successes := 0\<rparr>, s1)"
    using checkOpen_half_open [of c options now name s] by auto
qed

text \<open>
  C3, amended, on inputs: the half-open circuit of the counterexample (two failures, then a
  success after the deadline; one success counted), with \<open>successThreshold = 2\<close>. A failing
  call reopens it and keeps the success count; a successful call closes it and resets the
  failure count; and the reopened circuit, called after its new deadline, is set half-open
  with the success count 0.
\<close>

theorem half_open_counters_witness:
  "circuitOf (snd (withCircuitBreaker ''api''
       \<lparr>failureThreshold = Some 2, resetTimeout = Some 100, successThreshold = Some 2\<rparr>
       failingCall 1102
       (runCalls ''api'' \<lparr>failureThreshold = Some 2, resetTimeout = Some 100, successThreshold = Some 2\<rparr>
          [(1000, failingCall), (1001, failingCall), (1101, succeedingCall)] freshBreakerState))) ''api''
     = \<lparr>state = Open, failures = 3, successes = 1, lastFailure = 1102\<rparr>
   \<and> circuitOf (snd (withCircuitBreaker ''api''
       \<lparr>failureThreshold = Some 2, resetTimeout = Some 100, successThreshold = Some 2\<rparr>
       succeedingCall 1102
       (runCalls ''api'' \<lparr>failureThreshold = Some 2, resetTimeout = Some 100, successThreshold = Some 2\<rparr>
          [(1000, failingCall), (1001, failingCall), (1101, succeedingCall)] freshBreakerState))) ''api''
     = \<lparr>state = Closed, failures = 0, successes = 2, lastFailure = 1001\<rparr>
   \<and> (\<exists>s1. checkOpen ''api''
          \<lparr>failureThreshold = Some 2, resetTimeout = Some 100, successThreshold = Some 2\<rparr> 1202
          \<lparr>state = Open, failures = 3, successes = 1, lastFailure = 1102\<rparr> freshBreakerState
        = Inr (\<lparr>state = HalfOpen, failures = 3, successes = 0, lastFailure = 1102\<rparr>, s1))"
proof -
  let ?options = "\<lparr>failureThreshold = Some 2, resetTimeout = Some 100, successThreshold = Some 2\<rparr>"
  let ?st = "runCalls ''api'' ?options
               [(1000, failingCall), (1001, failingCall), (1101, succeedingCall)] freshBreakerState"
  have h1: "state (circuitOf freshBreakerState ''api'') = Closed"
    by (simp add: circuitOf_def storage_get_def freshBreakerState_def DEFAULT_CIRCUIT_def)
  have c: "circuitOf ?st ''api'' = \<lparr>state = HalfOpen, failures = 2, successes = 1, lastFailure = 1001\<rparr>"
    by (simp add: breaker_eval)
  have chk: "checkOpen ''api'' ?options 1102 (circuitOf ?st ''api'') ?st
               = Inr (\<lparr>state = HalfOpen, failures = 2, successes = 1, lastFailure = 1001\<rparr>, ?st)
             \<and> state \<lparr>state = HalfOpen, failures = 2, successes = 1, lastFailure = 1001\<rparr> = HalfOpen"
    unfolding c by (simp add: checkOpen_not_open)
  note t = half_open_counters
             [where name = "''api''" and options = ?options and initial = freshBreakerState
                and cs = "[(1000, failingCall), (1001, failingCall), (1101, succeedingCall)]",
              OF h1 refl]
  have fl: "isl (fst (failingCall w))" and ok: "\<not> isl (fst (succeedingCall w))" for w
    by (simp_all add: failingCall_def succeedingCall_def)
  have op: "state \<lparr>state = Open, failures = 3, successes = 1, lastFailure = 1102\<rparr> = Open
      \<and> lastFailure \<lparr>state = Open, failures = 3, successes = 1, lastFailure = 1102\<rparr>
          + resetTimeoutOf ?options \<le> 1202"
    by (simp add: resetTimeoutOf_def)
  show ?thesis
    using t [THEN conjunct1, rule_format, OF chk, where fn = failingCall,
             THEN conjunct2, rule_format, OF fl]
          t [THEN conjunct1, rule_format, OF chk, where fn = succeedingCall,
             THEN conjunct1, rule_format, OF ok]
          t [THEN conjunct2, rule_format, OF op, where s = freshBreakerState]
    by (simp add: successThresholdOf_def)
qed

end
